theory Spec2Isabelle
  imports Main "HOL-Library.Word"
begin

unbundle bit_operations_syntax

section \<open>Machine types and little-endian fields\<close>

type_synonym u8 = "8 word"
type_synonym u32 = "32 word"
type_synonym u64 = "64 word"

text \<open>
  The bytes of a little-endian field, least significant byte first, read as one
  unsigned value (\<open>le32_to_cpu\<close>, \<open>le64_to_cpu\<close> applied to the field's bytes).
\<close>

primrec le_to_cpu :: "u8 list \<Rightarrow> 'a::len word" where
  "le_to_cpu [] = 0"
| "le_to_cpu (b # bs) = ucast b OR push_bit 8 (le_to_cpu bs)"

definition le32_at :: "nat \<Rightarrow> u8 list \<Rightarrow> u32" where
  "le32_at off bytes = le_to_cpu (take 4 (drop off bytes))"

definition le64_at :: "nat \<Rightarrow> u8 list \<Rightarrow> u64" where
  "le64_at off bytes = le_to_cpu (take 8 (drop off bytes))"

section \<open>The kernel's crc32c\<close>

text \<open>
  \<open>crc32c(crc, data, len)\<close> of \<open>linux/crc32c.h\<close>: the bit-reflected CRC with the
  Castagnoli polynomial, started from the seed it is given, with no final inversion.
\<close>

definition crc32c_shift :: "u32 \<Rightarrow> u32" where
  "crc32c_shift c = (if bit c 0 then drop_bit 1 c XOR 0x82F63B78 else drop_bit 1 c)"

definition crc32c_byte :: "u32 \<Rightarrow> u8 \<Rightarrow> u32" where
  "crc32c_byte c b =
     crc32c_shift (crc32c_shift (crc32c_shift (crc32c_shift
       (crc32c_shift (crc32c_shift (crc32c_shift (crc32c_shift (c XOR ucast b))))))))"

definition crc32c :: "u32 \<Rightarrow> u8 list \<Rightarrow> u32" where
  "crc32c seed bytes = foldl crc32c_byte seed bytes"

section \<open>Declarations of the headers\<close>

text \<open>
  \<open>super.c\<close> takes its constants and structure layouts from \<open>format.h\<close>, \<open>super.h\<close>
  and \<open>inode.h\<close>. They are parameters of the model. The checksummed range of
  \<open>read_supers\<close> starts right behind \<open>hdr.crc\<close> and is \<open>SCOUTFS_BRICK_SIZE - sizeof(crc)\<close>
  bytes long, so it lies inside the brick only with \<open>hdr.crc\<close> as the first four bytes of
  \<open>struct scoutfs_super\<close>: the model puts it there. The offsets of \<open>hdr.seq\<close> and \<open>id\<close>,
  the size of the structure and the number of bloom hash keys are left open.
\<close>

record format =
  SCOUTFS_SUPER_MAGIC :: u64
  SCOUTFS_SUPER_ID :: u64
  SCOUTFS_BRICK_SIZE :: nat
  SCOUTFS_SUPER_BRICK :: nat
  SCOUTFS_ROOT_INO :: u64
  offsetof_hdr_seq :: nat
  offsetof_id :: nat
  sizeof_scoutfs_super :: nat
  nr_bloom_hash_keys :: nat
  sizeof_bloom_hash_key :: nat

definition super_hdr_crc :: "u8 list \<Rightarrow> u32" where
  "super_hdr_crc bytes = le32_at 0 bytes"

definition super_hdr_seq :: "format \<Rightarrow> u8 list \<Rightarrow> u64" where
  "super_hdr_seq fmt bytes = le64_at (offsetof_hdr_seq fmt) bytes"

definition super_id :: "format \<Rightarrow> u8 list \<Rightarrow> u64" where
  "super_id fmt bytes = le64_at (offsetof_id fmt) bytes"

section \<open>The per-mount context\<close>

text \<open>
  \<open>struct scoutfs_sb_info\<close>, with the fields \<open>super.c\<close> touches. \<open>super\<close> holds the bytes
  of the embedded \<open>struct scoutfs_super\<close>; the two roots hold the address of their root
  node, \<open>None\<close> for \<open>RB_ROOT\<close>.
\<close>

record scoutfs_sb_info =
  super :: "u8 list"
  next_ino :: u64
  next_blkno :: u64
  bloom_hash_keys :: "u8 list list"
  item_lock :: bool
  item_root :: "nat option"
  dirty_item_root :: "nat option"

section \<open>Calls into the kernel\<close>

text \<open>
  The error codes \<open>super.c\<close> names, and any other one an error pointer may carry. A
  function that returns \<open>0\<close> or \<open>-err\<close> returns \<open>Inr ()\<close> or \<open>Inl err\<close>.
\<close>

datatype errno = ENOMEM | EINVAL | Errno nat

text \<open>
  The messages of \<open>scoutfs_warn\<close>, \<open>scoutfs_err\<close>, \<open>scoutfs_info\<close> and \<open>printk\<close> with
  their arguments, and the calls into the kernel with their arguments and whether they
  succeeded.
\<close>

datatype msg =
    Warn_read nat
  | Warn_id nat u64
  | Warn_crc nat u32 u32
  | Err_no_super
  | Info_using int u64
  | Err_blocksize

datatype event =
    Kzalloc "nat option"
  | Sb_set_blocksize nat bool
  | Sb_bread nat bool
  | Brelse nat
  | Msg msg
  | Get_random_bytes nat
  | Scoutfs_iget u64 bool
  | D_make_root nat bool
  | Kill_block_super
  | Kfree "nat option"

text \<open>
  What the kernel answers: the address \<open>kzalloc\<close> returns (\<open>None\<close> for \<open>NULL\<close>), whether
  the device takes a block size, the block \<open>sb_bread\<close> finds at a block number (\<open>None\<close>
  when the read fails), the bytes \<open>get_random_bytes\<close> writes at its n-th call, the inode
  or error pointer of \<open>scoutfs_iget\<close> and the dentry of \<open>d_make_root\<close>. A block that
  \<open>sb_bread\<close> returns has the block size of the device, which is \<open>SCOUTFS_BRICK_SIZE\<close>
  when \<open>read_supers\<close> runs.
\<close>

record env =
  MAX_LFS_FILESIZE :: u64
  kzalloc_ret :: "nat option"
  sb_set_blocksize_ok :: "nat \<Rightarrow> bool"
  sb_bread :: "nat \<Rightarrow> u8 list option"
  get_random_bytes :: "nat \<Rightarrow> u8 list"
  scoutfs_iget :: "u64 \<Rightarrow> errno + nat"
  d_make_root :: "nat \<Rightarrow> nat option"

section \<open>read_supers\<close>

text \<open>
  The state of \<open>read_supers\<close> across its loop: the block number of the buffer held in
  \<open>bh\<close>, \<open>found\<close>, the context and the calls made.
\<close>

record rs_state =
  bh :: "nat option"
  found :: int
  sbi :: scoutfs_sb_info
  trace :: "event list"

text \<open>\<open>if (bh) brelse(bh)\<close>.\<close>

definition brelse_held :: "rs_state \<Rightarrow> rs_state" where
  "brelse_held st =
     (case bh st of
        None \<Rightarrow> st
      | Some b \<Rightarrow> st\<lparr>trace := trace st @ [Brelse b]\<rparr>)"

text \<open>One turn of the loop over the two super bricks, for slot \<open>i\<close>.\<close>

definition read_supers_iter :: "format \<Rightarrow> env \<Rightarrow> nat \<Rightarrow> rs_state \<Rightarrow> rs_state" where
  "read_supers_iter fmt e i st0 =
     (let st = brelse_held st0;
          blk = SCOUTFS_SUPER_BRICK fmt + i
      in case sb_bread e blk of
           None \<Rightarrow>
             st\<lparr>bh := None, trace := trace st @ [Sb_bread blk False, Msg (Warn_read i)]\<rparr>
         | Some data \<Rightarrow>
             let st = st\<lparr>bh := Some blk, trace := trace st @ [Sb_bread blk True]\<rparr>
             in if super_id fmt data \<noteq> SCOUTFS_SUPER_ID fmt then
                  st\<lparr>trace := trace st @ [Msg (Warn_id i (super_id fmt data))]\<rparr>
                else
                  let crc = crc32c 0xFFFFFFFF (take (SCOUTFS_BRICK_SIZE fmt - 4) (drop 4 data))
                  in if crc \<noteq> super_hdr_crc data then
                       st\<lparr>trace := trace st @ [Msg (Warn_crc i crc (super_hdr_crc data))]\<rparr>
                     else if found st < 0 \<or>
                             super_hdr_seq fmt data > super_hdr_seq fmt (super (sbi st)) then
                       st\<lparr>sbi := (sbi st)\<lparr>super := take (sizeof_scoutfs_super fmt) data\<rparr>,
                          found := int i\<rparr>
                     else st)"

text \<open>The loop over slots 0 and 1, and the release of the last buffer behind it.\<close>

definition read_supers_scan :: "format \<Rightarrow> env \<Rightarrow> scoutfs_sb_info \<Rightarrow> rs_state" where
  "read_supers_scan fmt e s =
     brelse_held (fold (read_supers_iter fmt e) [0, 1]
       \<lparr>bh = None, found = - 1, sbi = s, trace = []\<rparr>)"

text \<open>The loop that fills every entry of \<open>bloom_hash_keys\<close> with random bytes.\<close>

definition seed_bloom_hash_keys :: "format \<Rightarrow> env \<Rightarrow> u8 list list \<Rightarrow> u8 list list" where
  "seed_bloom_hash_keys fmt e keys =
     fold (\<lambda>i ks. ks[i := take (sizeof_bloom_hash_key fmt) (get_random_bytes e i)])
       [0..<nr_bloom_hash_keys fmt] keys"

definition read_supers ::
  "format \<Rightarrow> env \<Rightarrow> scoutfs_sb_info \<Rightarrow> (errno + unit) \<times> scoutfs_sb_info \<times> event list" where
  "read_supers fmt e s =
     (let st = read_supers_scan fmt e s
      in if found st < 0 then
           (Inl EINVAL, sbi st, trace st @ [Msg Err_no_super])
         else
           let tr = trace st @ [Msg (Info_using (found st) (super_hdr_seq fmt (super (sbi st))))];
               s1 = (sbi st)\<lparr>next_ino := SCOUTFS_ROOT_INO fmt + 1, next_blkno := 2\<rparr>;
               s2 = s1\<lparr>bloom_hash_keys := seed_bloom_hash_keys fmt e (bloom_hash_keys s1)\<rparr>
           in (Inr (), s2, tr @ map Get_random_bytes [0..<nr_bloom_hash_keys fmt]))"

section \<open>Mounting\<close>

datatype super_operations = Scoutfs_super_ops

text \<open>
  The fields of \<open>struct super_block\<close> that \<open>super.c\<close> reads or writes. \<open>s_fs_info\<close> is
  the address of the context, \<open>s_root\<close> the root dentry.
\<close>

record super_block =
  s_magic :: u64
  s_maxbytes :: u64
  s_op :: "super_operations option"
  s_fs_info :: "nat option"
  s_blocksize :: nat
  s_root :: "nat option"

text \<open>
  The memory \<open>kzalloc\<close> hands out, by address, and the calls made so far, oldest first.
\<close>

record world =
  heap :: "nat \<rightharpoonup> scoutfs_sb_info"
  events :: "event list"

definition emit :: "event list \<Rightarrow> world \<Rightarrow> world" where
  "emit evs w = w\<lparr>events := events w @ evs\<rparr>"

definition zeroed_sb_info :: "format \<Rightarrow> scoutfs_sb_info" where
  "zeroed_sb_info fmt =
     \<lparr>super = replicate (sizeof_scoutfs_super fmt) 0,
      next_ino = 0, next_blkno = 0,
      bloom_hash_keys = replicate (nr_bloom_hash_keys fmt) (replicate (sizeof_bloom_hash_key fmt) 0),
      item_lock = False, item_root = None, dirty_item_root = None\<rparr>"

definition kzalloc :: "format \<Rightarrow> env \<Rightarrow> world \<Rightarrow> nat option \<times> world" where
  "kzalloc fmt e w =
     (case kzalloc_ret e of
        None \<Rightarrow> (None, emit [Kzalloc None] w)
      | Some a \<Rightarrow> (Some a, emit [Kzalloc (Some a)] (w\<lparr>heap := (heap w)(a \<mapsto> zeroed_sb_info fmt)\<rparr>)))"

definition kfree :: "nat option \<Rightarrow> world \<Rightarrow> world" where
  "kfree p w =
     (case p of
        None \<Rightarrow> emit [Kfree None] w
      | Some a \<Rightarrow> emit [Kfree (Some a)] (w\<lparr>heap := (heap w)(a := None)\<rparr>))"

definition scoutfs_fill_super ::
  "format \<Rightarrow> env \<Rightarrow> super_block \<Rightarrow> world \<Rightarrow> (errno + unit) \<times> super_block \<times> world" where
  "scoutfs_fill_super fmt e sb0 w0 =
     (let sb = sb0\<lparr>s_magic := SCOUTFS_SUPER_MAGIC fmt, s_maxbytes := MAX_LFS_FILESIZE e,
                   s_op := Some Scoutfs_super_ops\<rparr>;
          (p, w) = kzalloc fmt e w0;
          sb = sb\<lparr>s_fs_info := p\<rparr>
      in case p of
           None \<Rightarrow> (Inl ENOMEM, sb, w)
         | Some a \<Rightarrow>
             let s = (the (heap w a))\<lparr>item_lock := True, item_root := None,
                                      dirty_item_root := None\<rparr>;
                 w = w\<lparr>heap := (heap w)(a \<mapsto> s)\<rparr>
             in if \<not> sb_set_blocksize_ok e (SCOUTFS_BRICK_SIZE fmt) then
                  (Inl EINVAL, sb,
                   emit [Sb_set_blocksize (SCOUTFS_BRICK_SIZE fmt) False, Msg Err_blocksize] w)
                else
                  let sb = sb\<lparr>s_blocksize := SCOUTFS_BRICK_SIZE fmt\<rparr>;
                      w = emit [Sb_set_blocksize (SCOUTFS_BRICK_SIZE fmt) True] w;
                      (ret, s, tr) = read_supers fmt e s;
                      w = emit tr (w\<lparr>heap := (heap w)(a \<mapsto> s)\<rparr>)
                  in case ret of
                       Inl err \<Rightarrow> (Inl err, sb, w)
                     | Inr _ \<Rightarrow>
                         (case scoutfs_iget e (SCOUTFS_ROOT_INO fmt) of
                            Inl err \<Rightarrow>
                              (Inl err, sb, emit [Scoutfs_iget (SCOUTFS_ROOT_INO fmt) False] w)
                          | Inr inode \<Rightarrow>
                              let w = emit [Scoutfs_iget (SCOUTFS_ROOT_INO fmt) True] w;
                                  sb = sb\<lparr>s_root := d_make_root e inode\<rparr>
                              in case s_root sb of
                                   None \<Rightarrow> (Inl ENOMEM, sb, emit [D_make_root inode False] w)
                                 | Some d \<Rightarrow> (Inr (), sb, emit [D_make_root inode True] w)))"

definition scoutfs_kill_sb :: "super_block \<Rightarrow> world \<Rightarrow> super_block \<times> world" where
  "scoutfs_kill_sb sb w = (sb, kfree (s_fs_info sb) (emit [Kill_block_super] w))"

text \<open>
  \<open>struct file_system_type\<close>, and the part of the kernel's \<open>mount_bdev\<close> that runs once the
  super block of the device is at hand: it calls \<open>fill_super\<close>, and on an error it
  deactivates the super block, which calls the \<open>kill_sb\<close> of the file system type, and
  returns the error; on success it returns the root dentry.
\<close>

record file_system_type =
  fs_name :: string
  kill_sb :: "super_block \<Rightarrow> world \<Rightarrow> super_block \<times> world"
  fs_requires_dev :: bool

definition mount_bdev ::
  "file_system_type \<Rightarrow> (super_block \<Rightarrow> world \<Rightarrow> (errno + unit) \<times> super_block \<times> world) \<Rightarrow>
   super_block \<Rightarrow> world \<Rightarrow> (errno + nat option) \<times> super_block \<times> world" where
  "mount_bdev fs_type fill_super sb w =
     (case fill_super sb w of
        (Inl err, sb1, w1) \<Rightarrow>
          (let (sb2, w2) = kill_sb fs_type sb1 w1 in (Inl err, sb2, w2))
      | (Inr _, sb1, w1) \<Rightarrow> (Inr (s_root sb1), sb1, w1))"

definition scoutfs_mount ::
  "format \<Rightarrow> env \<Rightarrow> file_system_type \<Rightarrow> super_block \<Rightarrow> world \<Rightarrow>
   (errno + nat option) \<times> super_block \<times> world" where
  "scoutfs_mount fmt e fs_type sb w = mount_bdev fs_type (scoutfs_fill_super fmt e) sb w"

definition scoutfs_fs_type :: file_system_type where
  "scoutfs_fs_type =
     \<lparr>fs_name = ''scoutfs'', kill_sb = scoutfs_kill_sb, fs_requires_dev = True\<rparr>"

section \<open>Valid slots\<close>

text \<open>
  A brick holds a valid record when it passes both checks of the loop in \<open>read_supers\<close>:
  the id and the checksum. \<open>slot_record\<close> is the brick of slot \<open>i\<close> when it could be read
  and is valid. \<open>scan_event\<close> holds of the calls the loop makes.
\<close>

definition valid_brick :: "format \<Rightarrow> u8 list \<Rightarrow> bool" where
  "valid_brick fmt data \<longleftrightarrow>
     super_id fmt data = SCOUTFS_SUPER_ID fmt \<and>
     crc32c 0xFFFFFFFF (take (SCOUTFS_BRICK_SIZE fmt - 4) (drop 4 data)) = super_hdr_crc data"

definition slot_record :: "format \<Rightarrow> env \<Rightarrow> nat \<Rightarrow> u8 list option" where
  "slot_record fmt e i =
     (case sb_bread e (SCOUTFS_SUPER_BRICK fmt + i) of
        None \<Rightarrow> None
      | Some data \<Rightarrow> if valid_brick fmt data then Some data else None)"

fun scan_event :: "event \<Rightarrow> bool" where
  "scan_event (Sb_bread _ _) = True"
| "scan_event (Brelse _) = True"
| "scan_event (Msg _) = True"
| "scan_event _ = False"

fun root_event :: "event \<Rightarrow> bool" where
  "root_event (Scoutfs_iget _ _) = True"
| "root_event (D_make_root _ _) = True"
| "root_event _ = False"

text \<open>The context as \<open>scoutfs_fill_super\<close> has it when it calls \<open>read_supers\<close>.\<close>

definition fresh_sb_info :: "format \<Rightarrow> scoutfs_sb_info" where
  "fresh_sb_info fmt =
     (zeroed_sb_info fmt)\<lparr>item_lock := True, item_root := None, dirty_item_root := None\<rparr>"

section \<open>Handing out inode numbers\<close>

text \<open>
  Modelled from the spec: the allocator of inode numbers is in \<open>inode.c\<close>, which is not
  among the sources. The spec has \<open>next_inode_number\<close> as a monotonically increasing
  allocation counter: an allocation hands out the value of the counter and advances it
  by one.
\<close>

definition alloc_ino :: "scoutfs_sb_info \<Rightarrow> u64 \<times> scoutfs_sb_info" where
  "alloc_ino s = (next_ino s, s\<lparr>next_ino := next_ino s + 1\<rparr>)"

fun alloc_inos :: "nat \<Rightarrow> scoutfs_sb_info \<Rightarrow> u64 list \<times> scoutfs_sb_info" where
  "alloc_inos 0 s = ([], s)"
| "alloc_inos (Suc n) s =
     (let (ino, s1) = alloc_ino s; (inos, s2) = alloc_inos n s1 in (ino # inos, s2))"

section \<open>A small format and devices to run the model on\<close>

text \<open>
  A format scaled down to bricks of 32 bytes: checksum, four bytes of padding, sequence
  number, id, four bytes of payload, and four bytes of the brick behind the structure.
\<close>

definition small_format :: format where
  "small_format =
     \<lparr>SCOUTFS_SUPER_MAGIC = 0x554f4353, SCOUTFS_SUPER_ID = 0x2e736674756f6373,
      SCOUTFS_BRICK_SIZE = 32, SCOUTFS_SUPER_BRICK = 16, SCOUTFS_ROOT_INO = 1,
      offsetof_hdr_seq = 8, offsetof_id = 16, sizeof_scoutfs_super = 28,
      nr_bloom_hash_keys = 2, sizeof_bloom_hash_key = 4\<rparr>"

definition brick_seq1 :: "u8 list" where
  "brick_seq1 =
     [171, 164, 108, 204, 0, 0, 0, 0, 1, 0, 0, 0, 0, 0, 0, 0,
      0x73, 0x63, 0x6f, 0x75, 0x74, 0x66, 0x73, 0x2e, 0xAA, 0xBB, 0xCC, 0xDD, 0, 0, 0, 0]"

definition brick_seq3 :: "u8 list" where
  "brick_seq3 =
     [70, 87, 31, 189, 0, 0, 0, 0, 3, 0, 0, 0, 0, 0, 0, 0,
      0x73, 0x63, 0x6f, 0x75, 0x74, 0x66, 0x73, 0x2e, 0xAA, 0xBB, 0xCC, 0xDD, 0, 0, 0, 0]"

definition brick_seq5 :: "u8 list" where
  "brick_seq5 =
     [113, 67, 139, 46, 0, 0, 0, 0, 5, 0, 0, 0, 0, 0, 0, 0,
      0x73, 0x63, 0x6f, 0x75, 0x74, 0x66, 0x73, 0x2e, 0xAA, 0xBB, 0xCC, 0xDD, 0, 0, 0, 0]"

definition brick_seq5_other :: "u8 list" where
  "brick_seq5_other =
     [216, 39, 81, 35, 0, 0, 0, 0, 5, 0, 0, 0, 0, 0, 0, 0,
      0x73, 0x63, 0x6f, 0x75, 0x74, 0x66, 0x73, 0x2e, 1, 2, 3, 4, 0, 0, 0, 0]"

text \<open>
  The bytes of \<open>brick_seq5\<close> behind the checksum, with the checksum taken over the 24
  bytes of the structure behind \<open>hdr.crc\<close> only, not over the whole brick.
\<close>

definition brick_seq5_record_crc :: "u8 list" where
  "brick_seq5_record_crc =
     [30, 190, 208, 141, 0, 0, 0, 0, 5, 0, 0, 0, 0, 0, 0, 0,
      0x73, 0x63, 0x6f, 0x75, 0x74, 0x66, 0x73, 0x2e, 0xAA, 0xBB, 0xCC, 0xDD, 0, 0, 0, 0]"

definition brick_seq9 :: "u8 list" where
  "brick_seq9 =
     [83, 191, 17, 202, 0, 0, 0, 0, 9, 0, 0, 0, 0, 0, 0, 0,
      0x73, 0x63, 0x6f, 0x75, 0x74, 0x66, 0x73, 0x2e, 0x11, 0x22, 0x33, 0x44, 0, 0, 0, 0]"

text \<open>Sequence 7 with one payload byte changed after the checksum was taken.\<close>

definition brick_seq7_bad_crc :: "u8 list" where
  "brick_seq7_bad_crc =
     [33, 18, 166, 153, 0, 0, 0, 0, 7, 0, 0, 0, 0, 0, 0, 0,
      0x73, 0x63, 0x6f, 0x75, 0x74, 0x66, 0x73, 0x2e, 0x11, 0x22, 0x33, 0x45, 0, 0, 0, 0]"

text \<open>Sequence 9 with a wrong first byte of the id.\<close>

definition brick_seq9_bad_id :: "u8 list" where
  "brick_seq9_bad_id =
     [83, 191, 17, 202, 0, 0, 0, 0, 9, 0, 0, 0, 0, 0, 0, 0,
      0x53, 0x63, 0x6f, 0x75, 0x74, 0x66, 0x73, 0x2e, 0x11, 0x22, 0x33, 0x44, 0, 0, 0, 0]"

text \<open>
  A kernel whose device has the given contents in the two super bricks (\<open>None\<close>: the
  read fails) and where every other call succeeds.
\<close>

definition env_of :: "u8 list option \<Rightarrow> u8 list option \<Rightarrow> env" where
  "env_of slot0 slot1 =
     \<lparr>MAX_LFS_FILESIZE = 0x7fffffffffffffff,
      kzalloc_ret = Some 4096,
      sb_set_blocksize_ok = (\<lambda>size. True),
      sb_bread = (\<lambda>blk. if blk = 16 then slot0 else if blk = 17 then slot1 else None),
      get_random_bytes = (\<lambda>n. [of_nat n + 7, 1, 2, 3]),
      scoutfs_iget = (\<lambda>ino. Inr 500),
      d_make_root = (\<lambda>inode. Some 600)\<rparr>"

text \<open>The same kernel with one of its calls failing.\<close>

definition kzalloc_fails :: "env \<Rightarrow> env" where
  "kzalloc_fails e = e\<lparr>kzalloc_ret := None\<rparr>"

definition set_blocksize_fails :: "env \<Rightarrow> env" where
  "set_blocksize_fails e = e\<lparr>sb_set_blocksize_ok := (\<lambda>size. False)\<rparr>"

definition iget_fails :: "env \<Rightarrow> env" where
  "iget_fails e = e\<lparr>scoutfs_iget := (\<lambda>ino. Inl (Errno 5))\<rparr>"

definition d_make_root_fails :: "env \<Rightarrow> env" where
  "d_make_root_fails e = e\<lparr>d_make_root := (\<lambda>inode. None)\<rparr>"

definition new_super_block :: super_block where
  "new_super_block =
     \<lparr>s_magic = 0, s_maxbytes = 0, s_op = None, s_fs_info = None, s_blocksize = 512,
      s_root = None\<rparr>"

definition empty_world :: world where
  "empty_world = \<lparr>heap = Map.empty, events = []\<rparr>"

section \<open>The scan over the slots\<close>

lemma brelse_held_keeps [simp]:
  "found (brelse_held st) = found st" "sbi (brelse_held st) = sbi st"
  by (simp_all add: brelse_held_def split: option.split)

lemma brelse_held_trace:
  "\<exists>evs. trace (brelse_held st) = trace st @ evs \<and> (\<forall>ev \<in> set evs. scan_event ev)"
  by (simp add: brelse_held_def split: option.split)

lemma iter_invalid:
  "slot_record fmt e i = None \<Longrightarrow>
   found (read_supers_iter fmt e i st) = found st \<and> sbi (read_supers_iter fmt e i st) = sbi st"
  by (auto simp: slot_record_def valid_brick_def read_supers_iter_def Let_def
           split: option.splits if_splits)

lemma iter_valid:
  "slot_record fmt e i = Some data \<Longrightarrow>
   found (read_supers_iter fmt e i st) =
     (if found st < 0 \<or> super_hdr_seq fmt (super (sbi st)) < super_hdr_seq fmt data
      then int i else found st) \<and>
   sbi (read_supers_iter fmt e i st) =
     (if found st < 0 \<or> super_hdr_seq fmt (super (sbi st)) < super_hdr_seq fmt data
      then (sbi st)\<lparr>super := take (sizeof_scoutfs_super fmt) data\<rparr> else sbi st)"
  by (auto simp: slot_record_def valid_brick_def read_supers_iter_def Let_def
           split: option.splits if_splits)

lemma iter_trace:
  "\<exists>evs. trace (read_supers_iter fmt e i st) = trace st @ evs \<and>
         (\<forall>ev \<in> set evs. scan_event ev) \<and>
         Sb_bread (SCOUTFS_SUPER_BRICK fmt + i) (sb_bread e (SCOUTFS_SUPER_BRICK fmt + i) \<noteq> None)
           \<in> set evs \<and>
         (sb_bread e (SCOUTFS_SUPER_BRICK fmt + i) = None \<longrightarrow> Msg (Warn_read i) \<in> set evs)"
  by (auto simp: read_supers_iter_def brelse_held_def Let_def split: option.splits)

lemma le64_at_take:
  "off + 8 \<le> n \<Longrightarrow> le64_at off (take n bytes) = le64_at off bytes"
  by (simp add: le64_at_def drop_take min_def)

lemma seq_of_copy:
  "offsetof_hdr_seq fmt + 8 \<le> sizeof_scoutfs_super fmt \<Longrightarrow>
   super_hdr_seq fmt (take (sizeof_scoutfs_super fmt) data) = super_hdr_seq fmt data"
  by (simp add: super_hdr_seq_def le64_at_take)

lemma scan_unfold:
  "read_supers_scan fmt e s =
     brelse_held (read_supers_iter fmt e 1 (read_supers_iter fmt e 0
       \<lparr>bh = None, found = - 1, sbi = s, trace = []\<rparr>))"
  by (simp add: read_supers_scan_def)

lemma scan_both_valid:
  assumes "slot_record fmt e 0 = Some d0" and "slot_record fmt e 1 = Some d1"
    and "offsetof_hdr_seq fmt + 8 \<le> sizeof_scoutfs_super fmt"
  shows "found (read_supers_scan fmt e s) = (if super_hdr_seq fmt d0 < super_hdr_seq fmt d1 then 1 else 0)"
    and "sbi (read_supers_scan fmt e s) =
          s\<lparr>super := take (sizeof_scoutfs_super fmt)
                (if super_hdr_seq fmt d0 < super_hdr_seq fmt d1 then d1 else d0)\<rparr>"
  using assms by (simp_all add: scan_unfold iter_valid seq_of_copy)

lemma scan_found_cases:
  "found (read_supers_scan fmt e s) = - 1 \<and> sbi (read_supers_scan fmt e s) = s \<or>
   (\<exists>i d. i < 2 \<and> found (read_supers_scan fmt e s) = int i \<and> slot_record fmt e i = Some d \<and>
      sbi (read_supers_scan fmt e s) = s\<lparr>super := take (sizeof_scoutfs_super fmt) d\<rparr>)"
proof (cases "slot_record fmt e 0")
  case None
  note n0 = this
  show ?thesis
  proof (cases "slot_record fmt e 1")
    case None
    with n0 show ?thesis by (simp add: scan_unfold iter_invalid)
  next
    case (Some d1)
    with n0 have "found (read_supers_scan fmt e s) = int 1 \<and>
      sbi (read_supers_scan fmt e s) = s\<lparr>super := take (sizeof_scoutfs_super fmt) d1\<rparr>"
      by (simp add: scan_unfold iter_invalid iter_valid)
    with Some show ?thesis by (intro disjI2 exI[of _ 1] exI[of _ d1]) simp
  qed
next
  case (Some d0)
  note s0 = this
  show ?thesis
  proof (cases "slot_record fmt e 1")
    case None
    with s0 have "found (read_supers_scan fmt e s) = int 0 \<and>
      sbi (read_supers_scan fmt e s) = s\<lparr>super := take (sizeof_scoutfs_super fmt) d0\<rparr>"
      by (simp add: scan_unfold iter_invalid iter_valid)
    with s0 show ?thesis by (intro disjI2 exI[of _ 0] exI[of _ d0]) simp
  next
    case (Some d1)
    show ?thesis
    proof (cases "super_hdr_seq fmt (take (sizeof_scoutfs_super fmt) d0) < super_hdr_seq fmt d1")
      case True
      with s0 Some have "found (read_supers_scan fmt e s) = int 1 \<and>
        sbi (read_supers_scan fmt e s) = s\<lparr>super := take (sizeof_scoutfs_super fmt) d1\<rparr>"
        by (simp add: scan_unfold iter_valid)
      with Some show ?thesis by (intro disjI2 exI[of _ 1] exI[of _ d1]) simp
    next
      case False
      with s0 Some have "found (read_supers_scan fmt e s) = int 0 \<and>
        sbi (read_supers_scan fmt e s) = s\<lparr>super := take (sizeof_scoutfs_super fmt) d0\<rparr>"
        by (simp add: scan_unfold iter_valid)
      with s0 show ?thesis by (intro disjI2 exI[of _ 0] exI[of _ d0]) simp
    qed
  qed
qed

lemma scan_found_iff:
  "found (read_supers_scan fmt e s) < 0 \<longleftrightarrow>
     slot_record fmt e 0 = None \<and> slot_record fmt e 1 = None"
proof (cases "slot_record fmt e 0")
  case None
  note n0 = this
  show ?thesis
  proof (cases "slot_record fmt e 1")
    case None
    with n0 show ?thesis by (simp add: scan_unfold iter_invalid)
  next
    case (Some d1)
    with n0 show ?thesis by (simp add: scan_unfold iter_invalid iter_valid)
  qed
next
  case (Some d0)
  note s0 = this
  show ?thesis
  proof (cases "slot_record fmt e 1")
    case None
    with s0 show ?thesis by (simp add: scan_unfold iter_invalid iter_valid)
  next
    case (Some d1)
    with s0 show ?thesis by (simp add: scan_unfold iter_valid)
  qed
qed

lemma read_supers_found:
  "0 \<le> found (read_supers_scan fmt e s) \<Longrightarrow>
   read_supers fmt e s =
     (Inr (),
      (sbi (read_supers_scan fmt e s))
        \<lparr>next_ino := SCOUTFS_ROOT_INO fmt + 1, next_blkno := 2,
         bloom_hash_keys :=
           seed_bloom_hash_keys fmt e (bloom_hash_keys (sbi (read_supers_scan fmt e s)))\<rparr>,
      trace (read_supers_scan fmt e s) @
        [Msg (Info_using (found (read_supers_scan fmt e s))
               (super_hdr_seq fmt (super (sbi (read_supers_scan fmt e s)))))] @
        map Get_random_bytes [0..<nr_bloom_hash_keys fmt])"
  by (simp add: read_supers_def Let_def)

lemma read_supers_none:
  "found (read_supers_scan fmt e s) < 0 \<Longrightarrow>
   read_supers fmt e s =
     (Inl EINVAL, sbi (read_supers_scan fmt e s),
      trace (read_supers_scan fmt e s) @ [Msg Err_no_super])"
  by (simp add: read_supers_def Let_def)

lemma scan_trace:
  "(\<forall>ev \<in> set (trace (read_supers_scan fmt e s)). scan_event ev) \<and>
   Sb_bread (SCOUTFS_SUPER_BRICK fmt) (sb_bread e (SCOUTFS_SUPER_BRICK fmt) \<noteq> None)
     \<in> set (trace (read_supers_scan fmt e s)) \<and>
   Sb_bread (SCOUTFS_SUPER_BRICK fmt + 1) (sb_bread e (SCOUTFS_SUPER_BRICK fmt + 1) \<noteq> None)
     \<in> set (trace (read_supers_scan fmt e s)) \<and>
   (sb_bread e (SCOUTFS_SUPER_BRICK fmt) = None \<longrightarrow>
      Msg (Warn_read 0) \<in> set (trace (read_supers_scan fmt e s))) \<and>
   (sb_bread e (SCOUTFS_SUPER_BRICK fmt + 1) = None \<longrightarrow>
      Msg (Warn_read 1) \<in> set (trace (read_supers_scan fmt e s)))"
proof -
  let ?st0 = "\<lparr>bh = None, found = - 1, sbi = s, trace = []\<rparr>"
  let ?st1 = "read_supers_iter fmt e 0 ?st0"
  let ?st2 = "read_supers_iter fmt e 1 ?st1"
  from iter_trace [of fmt e 0 ?st0] obtain evs0 where
    e0: "trace ?st1 = evs0 \<and> (\<forall>ev \<in> set evs0. scan_event ev) \<and>
      Sb_bread (SCOUTFS_SUPER_BRICK fmt) (sb_bread e (SCOUTFS_SUPER_BRICK fmt) \<noteq> None) \<in> set evs0 \<and>
      (sb_bread e (SCOUTFS_SUPER_BRICK fmt) = None \<longrightarrow> Msg (Warn_read 0) \<in> set evs0)"
    by auto
  from iter_trace [of fmt e 1 ?st1] obtain evs1 where
    e1: "trace ?st2 = trace ?st1 @ evs1 \<and> (\<forall>ev \<in> set evs1. scan_event ev) \<and>
      Sb_bread (SCOUTFS_SUPER_BRICK fmt + 1) (sb_bread e (SCOUTFS_SUPER_BRICK fmt + 1) \<noteq> None) \<in> set evs1 \<and>
      (sb_bread e (SCOUTFS_SUPER_BRICK fmt + 1) = None \<longrightarrow> Msg (Warn_read 1) \<in> set evs1)"
    by auto
  from brelse_held_trace [of ?st2] obtain evs2 where
    e2: "trace (brelse_held ?st2) = trace ?st2 @ evs2 \<and> (\<forall>ev \<in> set evs2. scan_event ev)"
    by auto
  have tr: "trace (read_supers_scan fmt e s) = evs0 @ evs1 @ evs2"
    using e0 e1 e2 by (simp add: scan_unfold)
  show ?thesis
    unfolding tr using e0 e1 e2 by auto
qed

lemma slot_record_sb_bread:
  "slot_record fmt e i = Some d \<Longrightarrow> sb_bread e (SCOUTFS_SUPER_BRICK fmt + i) = Some d"
  by (auto simp: slot_record_def split: option.splits if_splits)

lemma scan_event_not_root: "scan_event ev \<Longrightarrow> \<not> root_event ev"
  by (cases ev) simp_all

lemma read_supers_trace_no_root:
  assumes "read_supers fmt e s = (ret, s', tr)"
  shows "\<forall>ev \<in> set tr. \<not> root_event ev"
proof -
  have sc: "\<forall>ev \<in> set (trace (read_supers_scan fmt e s)). \<not> root_event ev"
    using scan_trace [of fmt e s] scan_event_not_root by blast
  show ?thesis
  proof (cases "found (read_supers_scan fmt e s) < 0")
    case True
    from read_supers_none [OF this] assms sc show ?thesis by auto
  next
    case False
    then have "0 \<le> found (read_supers_scan fmt e s)" by simp
    from read_supers_found [OF this] assms sc show ?thesis by auto
  qed
qed

lemma read_supers_counters:
  assumes "read_supers fmt e s = (Inr (), s', tr)"
  shows "next_ino s' = SCOUTFS_ROOT_INO fmt + 1" and "next_blkno s' = 2"
proof -
  have "0 \<le> found (read_supers_scan fmt e s)"
  proof (rule ccontr)
    assume "\<not> 0 \<le> found (read_supers_scan fmt e s)"
    then have "found (read_supers_scan fmt e s) < 0" by simp
    from read_supers_none [OF this] assms show False by simp
  qed
  from read_supers_found [OF this] assms
  show "next_ino s' = SCOUTFS_ROOT_INO fmt + 1" and "next_blkno s' = 2" by auto
qed

section \<open>Filling the super block\<close>

lemma fill_super_enomem:
  "kzalloc_ret e = None \<Longrightarrow>
   scoutfs_fill_super fmt e sb w =
     (Inl ENOMEM,
      sb\<lparr>s_magic := SCOUTFS_SUPER_MAGIC fmt, s_maxbytes := MAX_LFS_FILESIZE e,
         s_op := Some Scoutfs_super_ops, s_fs_info := None\<rparr>,
      w\<lparr>events := events w @ [Kzalloc None]\<rparr>)"
  by (simp add: scoutfs_fill_super_def kzalloc_def emit_def)

lemma fill_super_blocksize:
  "kzalloc_ret e = Some a \<Longrightarrow> \<not> sb_set_blocksize_ok e (SCOUTFS_BRICK_SIZE fmt) \<Longrightarrow>
   scoutfs_fill_super fmt e sb w =
     (Inl EINVAL,
      sb\<lparr>s_magic := SCOUTFS_SUPER_MAGIC fmt, s_maxbytes := MAX_LFS_FILESIZE e,
         s_op := Some Scoutfs_super_ops, s_fs_info := Some a\<rparr>,
      w\<lparr>heap := (heap w)(a \<mapsto> fresh_sb_info fmt),
        events := events w @ [Kzalloc (Some a), Sb_set_blocksize (SCOUTFS_BRICK_SIZE fmt) False,
                              Msg Err_blocksize]\<rparr>)"
  by (simp add: scoutfs_fill_super_def kzalloc_def emit_def fresh_sb_info_def Let_def)

lemma fill_super_selected:
  assumes "kzalloc_ret e = Some a" and "sb_set_blocksize_ok e (SCOUTFS_BRICK_SIZE fmt)"
    and "read_supers fmt e (fresh_sb_info fmt) = (ret, s, tr)"
  shows "scoutfs_fill_super fmt e sb w =
     (let sb1 = sb\<lparr>s_magic := SCOUTFS_SUPER_MAGIC fmt, s_maxbytes := MAX_LFS_FILESIZE e,
                    s_op := Some Scoutfs_super_ops, s_fs_info := Some a,
                    s_blocksize := SCOUTFS_BRICK_SIZE fmt\<rparr>;
          w1 = w\<lparr>heap := (heap w)(a \<mapsto> s),
                 events := events w @ [Kzalloc (Some a),
                   Sb_set_blocksize (SCOUTFS_BRICK_SIZE fmt) True] @ tr\<rparr>
      in case ret of
           Inl err \<Rightarrow> (Inl err, sb1, w1)
         | Inr _ \<Rightarrow>
             (case scoutfs_iget e (SCOUTFS_ROOT_INO fmt) of
                Inl err \<Rightarrow>
                  (Inl err, sb1,
                   w1\<lparr>events := events w1 @ [Scoutfs_iget (SCOUTFS_ROOT_INO fmt) False]\<rparr>)
              | Inr inode \<Rightarrow>
                  (case d_make_root e inode of
                     None \<Rightarrow>
                       (Inl ENOMEM, sb1\<lparr>s_root := None\<rparr>,
                        w1\<lparr>events := events w1 @ [Scoutfs_iget (SCOUTFS_ROOT_INO fmt) True,
                                                  D_make_root inode False]\<rparr>)
                   | Some d \<Rightarrow>
                       (Inr (), sb1\<lparr>s_root := Some d\<rparr>,
                        w1\<lparr>events := events w1 @ [Scoutfs_iget (SCOUTFS_ROOT_INO fmt) True,
                                                  D_make_root inode True]\<rparr>))))"
  using assms
  by (simp add: scoutfs_fill_super_def kzalloc_def emit_def fresh_sb_info_def Let_def
           split: sum.splits option.splits)

lemma fill_super_success:
  assumes "scoutfs_fill_super fmt e sb w = (Inr (), sb', w')"
  shows "\<exists>a s tr. kzalloc_ret e = Some a \<and> s_fs_info sb' = Some a \<and> heap w' a = Some s \<and>
           read_supers fmt e (fresh_sb_info fmt) = (Inr (), s, tr) \<and>
           Scoutfs_iget (SCOUTFS_ROOT_INO fmt) True \<in> set (events w')"
proof (cases "kzalloc_ret e")
  case None
  from fill_super_enomem [OF this, of fmt sb w] assms show ?thesis by simp
next
  case (Some a)
  show ?thesis
  proof (cases "sb_set_blocksize_ok e (SCOUTFS_BRICK_SIZE fmt)")
    case False
    from fill_super_blocksize [OF Some this, of sb w] assms show ?thesis by simp
  next
    case True
    obtain ret s tr where rs: "read_supers fmt e (fresh_sb_info fmt) = (ret, s, tr)"
      by (cases "read_supers fmt e (fresh_sb_info fmt)") auto
    from fill_super_selected [OF Some True rs, of sb w] assms Some rs
    show ?thesis
      by (auto simp: Let_def split: sum.splits option.splits)
  qed
qed

section \<open>The inode numbers handed out\<close>

lemma alloc_inos_values:
  "ino \<in> set (fst (alloc_inos n s)) \<Longrightarrow> \<exists>k<n. ino = next_ino s + of_nat k"
proof (induction n arbitrary: s)
  case 0
  then show ?case by simp
next
  case (Suc n)
  let ?s1 = "s\<lparr>next_ino := next_ino s + 1\<rparr>"
  from Suc.prems have "ino = next_ino s \<or> ino \<in> set (fst (alloc_inos n ?s1))"
    by (auto simp: alloc_ino_def split: prod.splits)
  then show ?case
  proof
    assume "ino = next_ino s"
    then show ?thesis by (intro exI [of _ 0]) simp
  next
    assume "ino \<in> set (fst (alloc_inos n ?s1))"
    from Suc.IH [OF this] obtain k where "k < n" "ino = next_ino ?s1 + of_nat k" by blast
    then show ?thesis by (intro exI [of _ "Suc k"]) (simp add: add.assoc)
  qed
qed

lemma above_root:
  fixes r :: u64
  assumes "unat r + 1 + k < 2 ^ 64"
  shows "r < r + 1 + of_nat k"
proof -
  have "Suc k < 2 ^ LENGTH(64)" using assms by simp
  then have k: "unat (of_nat (Suc k) :: u64) = Suc k"
    by (intro of_nat_inverse [OF refl])
  have "unat r + unat (of_nat (Suc k) :: u64) < 2 ^ LENGTH(64)"
    using assms k by simp
  then have "unat (r + of_nat (Suc k)) = unat r + Suc k"
    using k by (simp add: unat_add_lem [THEN iffD1])
  then show ?thesis
    by (simp add: word_less_nat_alt add.assoc)
qed

section \<open>Runs on the small format\<close>

lemma replicate_small:
  "replicate 2 x = [x, x]" "replicate 4 x = [x, x, x, x]"
  by (simp_all add: numeral_2_eq_2 numeral_Bit0)

lemmas run_defs = read_supers_def read_supers_scan_def read_supers_iter_def brelse_held_def Let_def
  seed_bloom_hash_keys_def fresh_sb_info_def zeroed_sb_info_def
  small_format_def env_of_def super_id_def super_hdr_crc_def super_hdr_seq_def le64_at_def le32_at_def
  crc32c_def crc32c_byte_def crc32c_shift_def upt_rec replicate_small

lemmas fill_defs = scoutfs_fill_super_def kzalloc_def emit_def Let_def fresh_sb_info_def
  zeroed_sb_info_def

text \<open>The check value of CRC-32C: the model of \<open>crc32c\<close> on the digits 1 to 9.\<close>

lemma crc32c_check_value:
  "crc32c 0xFFFFFFFF [0x31, 0x32, 0x33, 0x34, 0x35, 0x36, 0x37, 0x38, 0x39] XOR 0xFFFFFFFF =
     0xE3069283"
  by (simp add: crc32c_def crc32c_byte_def crc32c_shift_def)

lemma small_valid:
  "valid_brick small_format brick_seq1" "valid_brick small_format brick_seq3"
  "valid_brick small_format brick_seq5" "valid_brick small_format brick_seq5_other"
  "valid_brick small_format brick_seq9"
  "\<not> valid_brick small_format brick_seq7_bad_crc"
  "\<not> valid_brick small_format brick_seq9_bad_id"
  by (simp_all add: valid_brick_def small_format_def brick_seq1_def brick_seq3_def brick_seq5_def
      brick_seq5_other_def brick_seq9_def brick_seq7_bad_crc_def brick_seq9_bad_id_def
      super_id_def super_hdr_crc_def le64_at_def le32_at_def
      crc32c_def crc32c_byte_def crc32c_shift_def)

lemma small_format_fields:
  "SCOUTFS_SUPER_MAGIC small_format = 0x554f4353"
  "SCOUTFS_SUPER_ID small_format = 0x2e736674756f6373"
  "SCOUTFS_BRICK_SIZE small_format = 32"
  "SCOUTFS_SUPER_BRICK small_format = 16"
  "SCOUTFS_ROOT_INO small_format = 1"
  "offsetof_hdr_seq small_format = 8"
  "offsetof_id small_format = 16"
  "sizeof_scoutfs_super small_format = 28"
  "nr_bloom_hash_keys small_format = 2"
  "sizeof_bloom_hash_key small_format = 4"
  by (simp_all add: small_format_def)

lemma env_of_fields:
  "kzalloc_ret (env_of a b) = Some 4096"
  "sb_set_blocksize_ok (env_of a b) n = True"
  "sb_bread (env_of a b) 16 = a"
  "sb_bread (env_of a b) 17 = b"
  "scoutfs_iget (env_of a b) ino = Inr 500"
  "d_make_root (env_of a b) inode = Some 600"
  by (simp_all add: env_of_def)

lemma small_slots:
  "slot_record small_format (env_of a b) 0 =
     (case a of None \<Rightarrow> None | Some d \<Rightarrow> if valid_brick small_format d then Some d else None)"
  "slot_record small_format (env_of a b) (Suc 0) =
     (case b of None \<Rightarrow> None | Some d \<Rightarrow> if valid_brick small_format d then Some d else None)"
  "slot_record small_format (env_of a b) 1 =
     (case b of None \<Rightarrow> None | Some d \<Rightarrow> if valid_brick small_format d then Some d else None)"
  by (simp_all add: slot_record_def small_format_fields env_of_fields)

lemma small_seqs:
  "super_hdr_seq small_format brick_seq1 = 1"
  "super_hdr_seq small_format brick_seq3 = 3"
  "super_hdr_seq small_format brick_seq5 = 5"
  "super_hdr_seq small_format brick_seq5_other = 5"
  "super_hdr_seq small_format brick_seq9 = 9"
  "super_hdr_seq small_format brick_seq7_bad_crc = 7"
  "super_hdr_seq small_format brick_seq9_bad_id = 9"
  by (simp_all add: super_hdr_seq_def le64_at_def small_format_fields brick_seq1_def brick_seq3_def
      brick_seq5_def brick_seq5_other_def brick_seq9_def brick_seq7_bad_crc_def
      brick_seq9_bad_id_def)

lemma small_lengths:
  "length brick_seq5 = 32" "length brick_seq7_bad_crc = 32"
  by (simp_all add: brick_seq5_def brick_seq7_bad_crc_def)

lemma small_checksums:
  "crc32c 0xFFFFFFFF (drop 4 brick_seq5) = super_hdr_crc brick_seq5"
  "crc32c 0xFFFFFFFF (drop 4 brick_seq7_bad_crc) = 0xA1B77D8D"
  "super_hdr_crc brick_seq7_bad_crc = 0x99A61221"
  "super_id small_format brick_seq5 = 0x2e736674756f6373"
  "super_id small_format brick_seq7_bad_crc = 0x2e736674756f6373"
  by (simp_all add: brick_seq5_def brick_seq7_bad_crc_def super_hdr_crc_def super_id_def
      le32_at_def le64_at_def small_format_fields crc32c_def crc32c_byte_def crc32c_shift_def)

lemma run_scenario_A:
  "read_supers small_format (env_of (Some brick_seq5) (Some brick_seq7_bad_crc))
     (fresh_sb_info small_format) =
     (Inr (),
      \<lparr>super = take 28 brick_seq5, next_ino = 2, next_blkno = 2,
       bloom_hash_keys = [[7, 1, 2, 3], [8, 1, 2, 3]],
       item_lock = True, item_root = None, dirty_item_root = None\<rparr>,
      [Sb_bread 16 True, Brelse 16, Sb_bread 17 True, Msg (Warn_crc 1 0xA1B77D8D 0x99A61221),
       Brelse 17, Msg (Info_using 0 5), Get_random_bytes 0, Get_random_bytes 1])"
  by (simp add: run_defs brick_seq5_def brick_seq7_bad_crc_def)

lemma run_scenario_B:
  "read_supers small_format (env_of (Some brick_seq3) (Some brick_seq9)) (fresh_sb_info small_format) =
     (Inr (),
      \<lparr>super = take 28 brick_seq9, next_ino = 2, next_blkno = 2,
       bloom_hash_keys = [[7, 1, 2, 3], [8, 1, 2, 3]],
       item_lock = True, item_root = None, dirty_item_root = None\<rparr>,
      [Sb_bread 16 True, Brelse 16, Sb_bread 17 True, Brelse 17, Msg (Info_using 1 9),
       Get_random_bytes 0, Get_random_bytes 1])"
  by (simp add: run_defs brick_seq3_def brick_seq9_def)

lemma run_scenario_C:
  "read_supers small_format (env_of None (Some brick_seq1)) (fresh_sb_info small_format) =
     (Inr (),
      \<lparr>super = take 28 brick_seq1, next_ino = 2, next_blkno = 2,
       bloom_hash_keys = [[7, 1, 2, 3], [8, 1, 2, 3]],
       item_lock = True, item_root = None, dirty_item_root = None\<rparr>,
      [Sb_bread 16 False, Msg (Warn_read 0), Sb_bread 17 True, Brelse 17, Msg (Info_using 1 1),
       Get_random_bytes 0, Get_random_bytes 1])"
  by (simp add: run_defs brick_seq1_def)

lemma run_scenario_D:
  "read_supers small_format (env_of (Some brick_seq9_bad_id) (Some brick_seq9_bad_id))
     (fresh_sb_info small_format) =
     (Inl EINVAL, fresh_sb_info small_format,
      [Sb_bread 16 True, Msg (Warn_id 0 0x2e736674756f6353), Brelse 16,
       Sb_bread 17 True, Msg (Warn_id 1 0x2e736674756f6353), Brelse 17, Msg Err_no_super])"
  by (simp add: run_defs brick_seq9_bad_id_def)

lemma read_supers_other_calls:
  "read_supers fmt (iget_fails e) s = read_supers fmt e s"
  "read_supers fmt (d_make_root_fails e) s = read_supers fmt e s"
  by (simp_all add: read_supers_def read_supers_scan_def read_supers_iter_def
      seed_bloom_hash_keys_def iget_fails_def d_make_root_fails_def Let_def)

lemma mount_scenario_A:
  "fst (scoutfs_fill_super small_format (env_of (Some brick_seq5) (Some brick_seq7_bad_crc))
     new_super_block empty_world) = Inr ()"
  "s_fs_info (fst (snd (scoutfs_fill_super small_format
     (env_of (Some brick_seq5) (Some brick_seq7_bad_crc)) new_super_block empty_world))) = Some 4096"
  "heap (snd (snd (scoutfs_fill_super small_format
     (env_of (Some brick_seq5) (Some brick_seq7_bad_crc)) new_super_block empty_world))) 4096 =
   Some \<lparr>super = take 28 brick_seq5, next_ino = 2, next_blkno = 2,
       bloom_hash_keys = [[7, 1, 2, 3], [8, 1, 2, 3]],
       item_lock = True, item_root = None, dirty_item_root = None\<rparr>"
  using fill_super_selected [OF _ _ run_scenario_A, of 4096 new_super_block empty_world]
  by (simp_all add: env_of_fields Let_def)

lemma mount_scenario_B:
  "fst (scoutfs_fill_super small_format (env_of (Some brick_seq3) (Some brick_seq9))
     new_super_block empty_world) = Inr ()"
  "s_fs_info (fst (snd (scoutfs_fill_super small_format
     (env_of (Some brick_seq3) (Some brick_seq9)) new_super_block empty_world))) = Some 4096"
  "heap (snd (snd (scoutfs_fill_super small_format
     (env_of (Some brick_seq3) (Some brick_seq9)) new_super_block empty_world))) 4096 =
   Some \<lparr>super = take 28 brick_seq9, next_ino = 2, next_blkno = 2,
       bloom_hash_keys = [[7, 1, 2, 3], [8, 1, 2, 3]],
       item_lock = True, item_root = None, dirty_item_root = None\<rparr>"
  using fill_super_selected [OF _ _ run_scenario_B, of 4096 new_super_block empty_world]
  by (simp_all add: env_of_fields Let_def)

section \<open>The claims\<close>

subsection \<open>C1\<close>

text \<open>
  C1. When both slots hold a valid record, \<open>read_supers\<close> succeeds with the record whose
  \<open>hdr.seq\<close> is strictly greater stored in the context and its slot reported; when the
  two sequence numbers are equal it is the record of slot 0, the first one scanned. The
  sequence number is read from the copy in the context, so the field has to lie inside
  \<open>struct scoutfs_super\<close>.
\<close>

theorem read_supers_greatest_sequence:
  assumes "slot_record fmt e 0 = Some d0" and "slot_record fmt e 1 = Some d1"
    and "offsetof_hdr_seq fmt + 8 \<le> sizeof_scoutfs_super fmt"
  shows "\<exists>s' tr. read_supers fmt e s = (Inr (), s', tr) \<and>
           (if super_hdr_seq fmt d0 < super_hdr_seq fmt d1
            then super s' = take (sizeof_scoutfs_super fmt) d1 \<and>
                 found (read_supers_scan fmt e s) = 1 \<and>
                 Msg (Info_using 1 (super_hdr_seq fmt d1)) \<in> set tr
            else super s' = take (sizeof_scoutfs_super fmt) d0 \<and>
                 found (read_supers_scan fmt e s) = 0 \<and>
                 Msg (Info_using 0 (super_hdr_seq fmt d0)) \<in> set tr)"
proof -
  note sc = scan_both_valid [OF assms, of s]
  have "0 \<le> found (read_supers_scan fmt e s)" by (simp add: sc(1))
  from read_supers_found [OF this] show ?thesis
    using assms(3) by (simp add: sc seq_of_copy)
qed

text \<open>
  C1 on two devices: sequence numbers 3 and 9, where slot 1 wins, and two different
  records with sequence number 5, where slot 0 wins.
\<close>

theorem read_supers_greatest_sequence_witness:
  "slot_record small_format (env_of (Some brick_seq3) (Some brick_seq9)) 0 = Some brick_seq3 \<and>
   slot_record small_format (env_of (Some brick_seq3) (Some brick_seq9)) 1 = Some brick_seq9 \<and>
   offsetof_hdr_seq small_format + 8 \<le> sizeof_scoutfs_super small_format \<and>
   (\<exists>s' tr. read_supers small_format (env_of (Some brick_seq3) (Some brick_seq9))
               (fresh_sb_info small_format) = (Inr (), s', tr) \<and>
            super s' = take 28 brick_seq9 \<and> Msg (Info_using 1 9) \<in> set tr) \<and>
   slot_record small_format (env_of (Some brick_seq5) (Some brick_seq5_other)) 0 = Some brick_seq5 \<and>
   slot_record small_format (env_of (Some brick_seq5) (Some brick_seq5_other)) 1 =
     Some brick_seq5_other \<and>
   (\<exists>s' tr. read_supers small_format (env_of (Some brick_seq5) (Some brick_seq5_other))
               (fresh_sb_info small_format) = (Inr (), s', tr) \<and>
            super s' = take 28 brick_seq5 \<and> Msg (Info_using 0 5) \<in> set tr)"
proof -
  have a: "slot_record small_format (env_of (Some brick_seq3) (Some brick_seq9)) 0 = Some brick_seq3"
    "slot_record small_format (env_of (Some brick_seq3) (Some brick_seq9)) 1 = Some brick_seq9"
    by (simp_all add: small_slots small_valid)
  have b: "slot_record small_format (env_of (Some brick_seq5) (Some brick_seq5_other)) 0 = Some brick_seq5"
    "slot_record small_format (env_of (Some brick_seq5) (Some brick_seq5_other)) 1 = Some brick_seq5_other"
    by (simp_all add: small_slots small_valid)
  have c: "offsetof_hdr_seq small_format + 8 \<le> sizeof_scoutfs_super small_format"
    by (simp add: small_format_fields)
  show ?thesis
    using read_supers_greatest_sequence [OF a c, of "fresh_sb_info small_format"]
      read_supers_greatest_sequence [OF b c, of "fresh_sb_info small_format"] a b c
    by (auto simp: small_seqs small_format_fields)
qed

subsection \<open>C2\<close>

text \<open>
  C2. A record that fails the id or the checksum test is never selected, whatever its
  sequence number: a successful \<open>read_supers\<close> stores the record of a valid slot; the
  slot it reports is never an invalid one; and with one slot invalid and the other valid
  the valid one is selected, with no condition on the sequence numbers of either.
\<close>

theorem read_supers_validity_dominates:
  "(\<forall>s' tr. read_supers fmt e s = (Inr (), s', tr) \<longrightarrow>
      (\<exists>i d. i < 2 \<and> found (read_supers_scan fmt e s) = int i \<and>
         slot_record fmt e i = Some d \<and> super s' = take (sizeof_scoutfs_super fmt) d)) \<and>
   (\<forall>i. slot_record fmt e i = None \<longrightarrow> found (read_supers_scan fmt e s) \<noteq> int i) \<and>
   (\<forall>i j d. slot_record fmt e i = None \<and> slot_record fmt e j = Some d \<and> i < 2 \<and> j < 2 \<longrightarrow>
      (\<exists>s' tr. read_supers fmt e s = (Inr (), s', tr) \<and>
         super s' = take (sizeof_scoutfs_super fmt) d \<and>
         found (read_supers_scan fmt e s) = int j))"
proof (intro conjI allI impI)
  fix s' tr assume ok: "read_supers fmt e s = (Inr (), s', tr)"
  have nn: "0 \<le> found (read_supers_scan fmt e s)"
  proof (rule ccontr)
    assume "\<not> 0 \<le> found (read_supers_scan fmt e s)"
    then have "found (read_supers_scan fmt e s) < 0" by simp
    from read_supers_none [OF this] ok show False by simp
  qed
  with scan_found_cases [of fmt e s] obtain i d where
    id: "i < 2" "found (read_supers_scan fmt e s) = int i" "slot_record fmt e i = Some d"
      "sbi (read_supers_scan fmt e s) = s\<lparr>super := take (sizeof_scoutfs_super fmt) d\<rparr>"
    by auto
  from read_supers_found [OF nn] ok id(4)
  have "super s' = take (sizeof_scoutfs_super fmt) d" by auto
  with id show "\<exists>i d. i < 2 \<and> found (read_supers_scan fmt e s) = int i \<and>
         slot_record fmt e i = Some d \<and> super s' = take (sizeof_scoutfs_super fmt) d"
    by blast
next
  fix i assume "slot_record fmt e i = None"
  with scan_found_cases [of fmt e s]
  show "found (read_supers_scan fmt e s) \<noteq> int i" by auto
next
  fix i j d
  assume a: "slot_record fmt e i = None \<and> slot_record fmt e j = Some d \<and> i < 2 \<and> j < 2"
  then have ij: "i = 0 \<and> j = 1 \<or> i = 1 \<and> j = 0"
    by (cases "i = j") auto
  have f: "found (read_supers_scan fmt e s) = int j \<and>
     sbi (read_supers_scan fmt e s) = s\<lparr>super := take (sizeof_scoutfs_super fmt) d\<rparr>"
    using ij a by (auto simp: scan_unfold iter_invalid iter_valid)
  then have "0 \<le> found (read_supers_scan fmt e s)" by simp
  from read_supers_found [OF this] f
  show "\<exists>s' tr. read_supers fmt e s = (Inr (), s', tr) \<and>
         super s' = take (sizeof_scoutfs_super fmt) d \<and>
         found (read_supers_scan fmt e s) = int j"
    by simp
qed

text \<open>
  C2 on a device with a valid record of sequence 5 in slot 0 and a record of sequence 7
  with a wrong checksum in slot 1.
\<close>

theorem read_supers_validity_dominates_witness:
  "slot_record small_format (env_of (Some brick_seq5) (Some brick_seq7_bad_crc)) 1 = None \<and>
   slot_record small_format (env_of (Some brick_seq5) (Some brick_seq7_bad_crc)) 0 = Some brick_seq5 \<and>
   super_hdr_seq small_format brick_seq5 < super_hdr_seq small_format brick_seq7_bad_crc \<and>
   (\<exists>s' tr. read_supers small_format (env_of (Some brick_seq5) (Some brick_seq7_bad_crc))
               (fresh_sb_info small_format) = (Inr (), s', tr) \<and>
            super s' = take 28 brick_seq5 \<and>
            found (read_supers_scan small_format (env_of (Some brick_seq5) (Some brick_seq7_bad_crc))
               (fresh_sb_info small_format)) = 0)"
proof -
  have a: "slot_record small_format (env_of (Some brick_seq5) (Some brick_seq7_bad_crc)) 1 = None"
    "slot_record small_format (env_of (Some brick_seq5) (Some brick_seq7_bad_crc)) 0 = Some brick_seq5"
    by (simp_all add: small_slots small_valid)
  from read_supers_validity_dominates [of small_format "env_of (Some brick_seq5) (Some brick_seq7_bad_crc)"
      "fresh_sb_info small_format"]
  have "\<forall>i j d. slot_record small_format (env_of (Some brick_seq5) (Some brick_seq7_bad_crc)) i = None \<and>
      slot_record small_format (env_of (Some brick_seq5) (Some brick_seq7_bad_crc)) j = Some d \<and>
      i < 2 \<and> j < 2 \<longrightarrow>
      (\<exists>s' tr. read_supers small_format (env_of (Some brick_seq5) (Some brick_seq7_bad_crc))
               (fresh_sb_info small_format) = (Inr (), s', tr) \<and>
         super s' = take (sizeof_scoutfs_super small_format) d \<and>
         found (read_supers_scan small_format (env_of (Some brick_seq5) (Some brick_seq7_bad_crc))
               (fresh_sb_info small_format)) = int j)"
    by blast
  from this [rule_format, of 1 0 brick_seq5] a
  show ?thesis by (simp add: small_seqs small_format_fields)
qed

subsection \<open>C3\<close>

text \<open>
  C3. When neither slot holds a valid record, \<open>read_supers\<close> fails with \<open>EINVAL\<close>, its
  only error, which it returns in no other case, and leaves the context as it was.
  \<open>scoutfs_fill_super\<close> then returns an error without calling \<open>scoutfs_iget\<close> or
  \<open>d_make_root\<close> and without touching \<open>s_root\<close>; once the context is allocated and the
  block size set, that error is the \<open>EINVAL\<close> of \<open>read_supers\<close> and the last thing done is
  the report that no valid super brick was found.
\<close>

theorem no_valid_super_aborts_mount:
  assumes "slot_record fmt e 0 = None" and "slot_record fmt e 1 = None"
  shows "(\<exists>tr. read_supers fmt e s = (Inl EINVAL, s, tr) \<and> last tr = Msg Err_no_super) \<and>
         (\<forall>e' s' err. fst (read_supers fmt e' s') = Inl err \<longrightarrow>
            err = EINVAL \<and> slot_record fmt e' 0 = None \<and> slot_record fmt e' 1 = None) \<and>
         (\<exists>err sb' w' evs. scoutfs_fill_super fmt e sb w = (Inl err, sb', w') \<and>
            events w' = events w @ evs \<and> (\<forall>ev \<in> set evs. \<not> root_event ev) \<and>
            s_root sb' = s_root sb \<and>
            (kzalloc_ret e \<noteq> None \<and> sb_set_blocksize_ok e (SCOUTFS_BRICK_SIZE fmt) \<longrightarrow>
               err = EINVAL \<and> last evs = Msg Err_no_super))"
proof -
  have sel: "\<And>s. found (read_supers_scan fmt e s) < 0 \<and> sbi (read_supers_scan fmt e s) = s"
    using assms by (simp add: scan_unfold iter_invalid)
  have rs: "\<And>s. read_supers fmt e s =
      (Inl EINVAL, s, trace (read_supers_scan fmt e s) @ [Msg Err_no_super])"
    using read_supers_none sel by simp
  have part1: "\<exists>tr. read_supers fmt e s = (Inl EINVAL, s, tr) \<and> last tr = Msg Err_no_super"
    using rs [of s] by simp
  have part2: "\<exists>err sb' w' evs. scoutfs_fill_super fmt e sb w = (Inl err, sb', w') \<and>
            events w' = events w @ evs \<and> (\<forall>ev \<in> set evs. \<not> root_event ev) \<and>
            s_root sb' = s_root sb \<and>
            (kzalloc_ret e \<noteq> None \<and> sb_set_blocksize_ok e (SCOUTFS_BRICK_SIZE fmt) \<longrightarrow>
               err = EINVAL \<and> last evs = Msg Err_no_super)"
  proof (cases "kzalloc_ret e")
    case None
    from fill_super_enomem [OF this, of fmt sb w] None show ?thesis by simp
  next
    case (Some a)
    show ?thesis
    proof (cases "sb_set_blocksize_ok e (SCOUTFS_BRICK_SIZE fmt)")
      case False
      from fill_super_blocksize [OF Some this, of sb w] False show ?thesis by simp
    next
      case True
      let ?tr = "trace (read_supers_scan fmt e (fresh_sb_info fmt)) @ [Msg Err_no_super]"
      have nr: "\<forall>ev \<in> set ?tr. \<not> root_event ev"
        using read_supers_trace_no_root [OF rs [of "fresh_sb_info fmt"]] .
      from fill_super_selected [OF Some True rs [of "fresh_sb_info fmt"], of sb w] nr
      show ?thesis by (simp add: Let_def)
    qed
  qed
  have part3: "\<forall>e' s' err. fst (read_supers fmt e' s') = Inl err \<longrightarrow>
            err = EINVAL \<and> slot_record fmt e' 0 = None \<and> slot_record fmt e' 1 = None"
  proof (intro allI impI)
    fix e' s' err assume er: "fst (read_supers fmt e' s') = Inl err"
    have neg: "found (read_supers_scan fmt e' s') < 0"
    proof (rule ccontr)
      assume "\<not> found (read_supers_scan fmt e' s') < 0"
      then have "0 \<le> found (read_supers_scan fmt e' s')" by simp
      from read_supers_found [OF this] er show False by simp
    qed
    from read_supers_none [OF neg] er have "err = EINVAL" by simp
    with neg scan_found_iff [of fmt e' s']
    show "err = EINVAL \<and> slot_record fmt e' 0 = None \<and> slot_record fmt e' 1 = None" by simp
  qed
  from part1 part2 part3 show ?thesis by blast
qed

text \<open>C3 on a device whose two super bricks both have a wrong id.\<close>

theorem no_valid_super_aborts_mount_witness:
  "slot_record small_format (env_of (Some brick_seq9_bad_id) (Some brick_seq9_bad_id)) 0 = None \<and>
   slot_record small_format (env_of (Some brick_seq9_bad_id) (Some brick_seq9_bad_id)) 1 = None \<and>
   fst (read_supers small_format (env_of (Some brick_seq9_bad_id) (Some brick_seq9_bad_id))
          (fresh_sb_info small_format)) = Inl EINVAL \<and>
   fst (scoutfs_fill_super small_format (env_of (Some brick_seq9_bad_id) (Some brick_seq9_bad_id))
          new_super_block empty_world) = Inl EINVAL \<and>
   events (snd (snd (scoutfs_fill_super small_format
          (env_of (Some brick_seq9_bad_id) (Some brick_seq9_bad_id))
          new_super_block empty_world))) =
     [Kzalloc (Some 4096), Sb_set_blocksize 32 True,
      Sb_bread 16 True, Msg (Warn_id 0 0x2e736674756f6353), Brelse 16,
      Sb_bread 17 True, Msg (Warn_id 1 0x2e736674756f6353), Brelse 17, Msg Err_no_super] \<and>
   s_root (fst (snd (scoutfs_fill_super small_format
          (env_of (Some brick_seq9_bad_id) (Some brick_seq9_bad_id))
          new_super_block empty_world))) = None"
proof -
  have h: "slot_record small_format (env_of (Some brick_seq9_bad_id) (Some brick_seq9_bad_id)) 0 = None"
    "slot_record small_format (env_of (Some brick_seq9_bad_id) (Some brick_seq9_bad_id)) 1 = None"
    by (simp_all add: small_slots small_valid)
  have ev: "events (snd (snd (scoutfs_fill_super small_format
          (env_of (Some brick_seq9_bad_id) (Some brick_seq9_bad_id))
          new_super_block empty_world))) =
     [Kzalloc (Some 4096), Sb_set_blocksize 32 True,
      Sb_bread 16 True, Msg (Warn_id 0 0x2e736674756f6353), Brelse 16,
      Sb_bread 17 True, Msg (Warn_id 1 0x2e736674756f6353), Brelse 17, Msg Err_no_super]"
    using fill_super_selected [OF _ _ run_scenario_D, of 4096 new_super_block empty_world]
    by (simp add: env_of_fields small_format_fields empty_world_def)
  show ?thesis
    using no_valid_super_aborts_mount [OF h, of "fresh_sb_info small_format"
        new_super_block empty_world] h ev
    by (auto simp: env_of_fields small_format_fields new_super_block_def empty_world_def)
qed

subsection \<open>C4\<close>

text \<open>
  C4. A failed read of one super brick does not end the scan: when \<open>sb_bread\<close> fails for
  one slot and the other slot holds a valid record, \<open>read_supers\<close> warns about the failed
  read, still reads the other brick and succeeds with the record of that slot.
\<close>

theorem read_failure_not_fatal:
  assumes "sb_bread e (SCOUTFS_SUPER_BRICK fmt + i) = None"
    and "slot_record fmt e j = Some d"
    and "i = 0 \<and> j = 1 \<or> i = 1 \<and> j = 0"
  shows "\<exists>s' tr. read_supers fmt e s = (Inr (), s', tr) \<and>
           super s' = take (sizeof_scoutfs_super fmt) d \<and>
           found (read_supers_scan fmt e s) = int j \<and>
           Msg (Warn_read i) \<in> set tr \<and>
           Sb_bread (SCOUTFS_SUPER_BRICK fmt + j) True \<in> set tr"
proof -
  have inv: "slot_record fmt e i = None"
    using assms(1) by (simp add: slot_record_def)
  have f: "found (read_supers_scan fmt e s) = int j \<and>
     sbi (read_supers_scan fmt e s) = s\<lparr>super := take (sizeof_scoutfs_super fmt) d\<rparr>"
    using assms(2,3) inv by (auto simp: scan_unfold iter_invalid iter_valid)
  then have nn: "0 \<le> found (read_supers_scan fmt e s)" by simp
  have rd: "sb_bread e (SCOUTFS_SUPER_BRICK fmt + j) = Some d"
    using assms(2) by (rule slot_record_sb_bread)
  have tr: "Msg (Warn_read i) \<in> set (trace (read_supers_scan fmt e s)) \<and>
            Sb_bread (SCOUTFS_SUPER_BRICK fmt + j) True \<in> set (trace (read_supers_scan fmt e s))"
    using scan_trace [of fmt e s] assms(1,3) rd by auto
  from read_supers_found [OF nn] f tr show ?thesis by simp
qed

text \<open>C4 on a device where slot 0 cannot be read and slot 1 is valid with sequence 1.\<close>

theorem read_failure_not_fatal_witness:
  "sb_bread (env_of None (Some brick_seq1)) (SCOUTFS_SUPER_BRICK small_format + 0) = None \<and>
   slot_record small_format (env_of None (Some brick_seq1)) 1 = Some brick_seq1 \<and>
   (\<exists>s' tr. read_supers small_format (env_of None (Some brick_seq1)) (fresh_sb_info small_format) =
               (Inr (), s', tr) \<and>
            super s' = take 28 brick_seq1 \<and> Msg (Warn_read 0) \<in> set tr \<and>
            Sb_bread 17 True \<in> set tr)"
proof -
  have h1: "sb_bread (env_of None (Some brick_seq1)) (SCOUTFS_SUPER_BRICK small_format + 0) = None"
    by (simp add: small_format_fields env_of_fields)
  have h2: "slot_record small_format (env_of None (Some brick_seq1)) 1 = Some brick_seq1"
    by (simp add: small_slots small_valid)
  have h3: "(0::nat) = 0 \<and> (1::nat) = 1 \<or> (0::nat) = 1 \<and> (1::nat) = 0" by simp
  show ?thesis
    using read_failure_not_fatal [OF h1 h2 h3, of "fresh_sb_info small_format"] h1 h2
    by (auto simp: small_format_fields)
qed

subsection \<open>C5\<close>

text \<open>
  C5 as stated fails. The checksum is not taken over the bytes of the record, the
  \<open>sizeof(struct scoutfs_super)\<close> bytes that are copied into the context, but over the
  whole brick behind \<open>hdr.crc\<close>. A brick whose stored checksum differs from the CRC of
  its record is accepted, because the CRC of the brick matches; a brick whose stored
  checksum is the CRC of its record is rejected, because the CRC of the brick differs.
\<close>

theorem record_checksum_does_not_decide:
  "sizeof_scoutfs_super small_format = 28 \<and> SCOUTFS_BRICK_SIZE small_format = 32 \<and>
   super_id small_format brick_seq5 = SCOUTFS_SUPER_ID small_format \<and>
   crc32c 0xFFFFFFFF (drop 4 (take 28 brick_seq5)) = 0x8DD0BE1E \<and>
   super_hdr_crc brick_seq5 = 0x2E8B4371 \<and>
   fst (read_supers small_format (env_of (Some brick_seq5) None) (fresh_sb_info small_format)) =
     Inr () \<and>
   super_id small_format brick_seq5_record_crc = SCOUTFS_SUPER_ID small_format \<and>
   crc32c 0xFFFFFFFF (drop 4 (take 28 brick_seq5_record_crc)) = 0x8DD0BE1E \<and>
   super_hdr_crc brick_seq5_record_crc = 0x8DD0BE1E \<and>
   fst (read_supers small_format (env_of (Some brick_seq5_record_crc) None)
     (fresh_sb_info small_format)) = Inl EINVAL \<and>
   snd (snd (read_supers small_format (env_of (Some brick_seq5_record_crc) None)
     (fresh_sb_info small_format))) =
     [Sb_bread 16 True, Msg (Warn_crc 0 0x2E8B4371 0x8DD0BE1E), Brelse 16,
      Sb_bread 17 False, Msg (Warn_read 1), Msg Err_no_super]"
  by (simp add: run_defs brick_seq5_def brick_seq5_record_crc_def)

text \<open>
  C5, as amended. For a brick that was read in full and whose id matches, the loop
  computes \<open>crc32c\<close> from the seed \<open>0xFFFFFFFF\<close> over all bytes of the brick behind the
  four bytes of \<open>hdr.crc\<close>: the rest of the record and the rest of the brick behind it.
  When the result equals the stored \<open>hdr.crc\<close> the slot is valid and is taken as a
  candidate (it becomes the stored record when none was found before); when it differs
  the slot is invalid, the turn warns with both values and leaves \<open>found\<close> and the
  context as they were.
\<close>

theorem checksum_decides_acceptance:
  assumes "sb_bread e (SCOUTFS_SUPER_BRICK fmt + i) = Some data"
    and "length data = SCOUTFS_BRICK_SIZE fmt"
    and "super_id fmt data = SCOUTFS_SUPER_ID fmt"
  shows "(crc32c 0xFFFFFFFF (drop 4 data) = super_hdr_crc data \<longrightarrow>
            slot_record fmt e i = Some data \<and>
            (found st < 0 \<longrightarrow>
               found (read_supers_iter fmt e i st) = int i \<and>
               super (sbi (read_supers_iter fmt e i st)) = take (sizeof_scoutfs_super fmt) data)) \<and>
         (crc32c 0xFFFFFFFF (drop 4 data) \<noteq> super_hdr_crc data \<longrightarrow>
            slot_record fmt e i = None \<and>
            found (read_supers_iter fmt e i st) = found st \<and>
            sbi (read_supers_iter fmt e i st) = sbi st \<and>
            Msg (Warn_crc i (crc32c 0xFFFFFFFF (drop 4 data)) (super_hdr_crc data))
              \<in> set (trace (read_supers_iter fmt e i st)))"
proof -
  have rng: "take (SCOUTFS_BRICK_SIZE fmt - 4) (drop 4 data) = drop 4 data"
    using assms(2) by simp
  show ?thesis
    using assms(1,3)
    by (simp add: read_supers_iter_def slot_record_def valid_brick_def rng Let_def)
qed

text \<open>C5 on a brick with the right checksum and on one with a wrong checksum.\<close>

theorem checksum_decides_acceptance_witness:
  "sb_bread (env_of (Some brick_seq5) (Some brick_seq7_bad_crc))
     (SCOUTFS_SUPER_BRICK small_format + 0) = Some brick_seq5 \<and>
   length brick_seq5 = SCOUTFS_BRICK_SIZE small_format \<and>
   super_id small_format brick_seq5 = SCOUTFS_SUPER_ID small_format \<and>
   crc32c 0xFFFFFFFF (drop 4 brick_seq5) = super_hdr_crc brick_seq5 \<and>
   found (read_supers_iter small_format (env_of (Some brick_seq5) (Some brick_seq7_bad_crc)) 0
     \<lparr>bh = None, found = - 1, sbi = fresh_sb_info small_format, trace = []\<rparr>) = 0 \<and>
   sb_bread (env_of (Some brick_seq5) (Some brick_seq7_bad_crc))
     (SCOUTFS_SUPER_BRICK small_format + 1) = Some brick_seq7_bad_crc \<and>
   length brick_seq7_bad_crc = SCOUTFS_BRICK_SIZE small_format \<and>
   super_id small_format brick_seq7_bad_crc = SCOUTFS_SUPER_ID small_format \<and>
   crc32c 0xFFFFFFFF (drop 4 brick_seq7_bad_crc) \<noteq> super_hdr_crc brick_seq7_bad_crc \<and>
   found (read_supers_iter small_format (env_of (Some brick_seq5) (Some brick_seq7_bad_crc)) 1
     \<lparr>bh = None, found = - 1, sbi = fresh_sb_info small_format, trace = []\<rparr>) = - 1 \<and>
   Msg (Warn_crc 1 0xA1B77D8D 0x99A61221) \<in> set (trace
     (read_supers_iter small_format (env_of (Some brick_seq5) (Some brick_seq7_bad_crc)) 1
       \<lparr>bh = None, found = - 1, sbi = fresh_sb_info small_format, trace = []\<rparr>))"
proof -
  let ?e = "env_of (Some brick_seq5) (Some brick_seq7_bad_crc)"
  let ?st = "\<lparr>bh = None, found = - 1, sbi = fresh_sb_info small_format, trace = []\<rparr>"
  have a: "sb_bread ?e (SCOUTFS_SUPER_BRICK small_format + 0) = Some brick_seq5"
    "length brick_seq5 = SCOUTFS_BRICK_SIZE small_format"
    "super_id small_format brick_seq5 = SCOUTFS_SUPER_ID small_format"
    by (simp_all add: small_format_fields env_of_fields small_checksums small_lengths)
  have b: "sb_bread ?e (SCOUTFS_SUPER_BRICK small_format + 1) = Some brick_seq7_bad_crc"
    "length brick_seq7_bad_crc = SCOUTFS_BRICK_SIZE small_format"
    "super_id small_format brick_seq7_bad_crc = SCOUTFS_SUPER_ID small_format"
    by (simp_all add: small_format_fields env_of_fields small_checksums small_lengths)
  show ?thesis
    using checksum_decides_acceptance [OF a, of ?st] checksum_decides_acceptance [OF b, of ?st] a b
    by (simp add: small_checksums)
qed

subsection \<open>C6\<close>

text \<open>
  C6 as stated fails. On a kernel that refuses the block size, the context is allocated
  before the block size is tried and is still allocated when the mount fails; on a kernel
  that also has no memory, the mount fails with \<open>ENOMEM\<close> and the block size is never
  tried.
\<close>

theorem blocksize_failure_after_allocation:
  "fst (scoutfs_fill_super small_format (set_blocksize_fails (env_of None None))
          new_super_block empty_world) = Inl EINVAL \<and>
   events (snd (snd (scoutfs_fill_super small_format (set_blocksize_fails (env_of None None))
          new_super_block empty_world))) =
     [Kzalloc (Some 4096), Sb_set_blocksize 32 False, Msg Err_blocksize] \<and>
   heap (snd (snd (scoutfs_fill_super small_format (set_blocksize_fails (env_of None None))
          new_super_block empty_world))) 4096 = Some (fresh_sb_info small_format) \<and>
   fst (scoutfs_fill_super small_format (kzalloc_fails (set_blocksize_fails (env_of None None)))
          new_super_block empty_world) = Inl ENOMEM \<and>
   events (snd (snd (scoutfs_fill_super small_format
          (kzalloc_fails (set_blocksize_fails (env_of None None)))
          new_super_block empty_world))) = [Kzalloc None]"
  by (simp add: fill_defs small_format_def env_of_def set_blocksize_fails_def kzalloc_fails_def
      new_super_block_def empty_world_def)

text \<open>
  C6, as amended. In \<open>scoutfs_fill_super\<close> the context is allocated first and the block
  size of the device is set second. A failed allocation ends the mount with \<open>ENOMEM\<close>
  before the block size is touched. A refused block size ends the mount with \<open>EINVAL\<close>
  after the context has been allocated and attached to the super block, and before any
  super brick is read. Only with both done does the mount go on.
\<close>

theorem allocation_precedes_blocksize:
  "(kzalloc_ret e = None \<longrightarrow>
      (\<exists>sb' w'. scoutfs_fill_super fmt e sb w = (Inl ENOMEM, sb', w') \<and>
         events w' = events w @ [Kzalloc None] \<and>
         s_blocksize sb' = s_blocksize sb \<and> heap w' = heap w)) \<and>
   (\<forall>a. kzalloc_ret e = Some a \<and> \<not> sb_set_blocksize_ok e (SCOUTFS_BRICK_SIZE fmt) \<longrightarrow>
      (\<exists>sb' w'. scoutfs_fill_super fmt e sb w = (Inl EINVAL, sb', w') \<and>
         events w' = events w @ [Kzalloc (Some a),
           Sb_set_blocksize (SCOUTFS_BRICK_SIZE fmt) False, Msg Err_blocksize] \<and>
         s_fs_info sb' = Some a \<and> heap w' a = Some (fresh_sb_info fmt))) \<and>
   (\<forall>a. kzalloc_ret e = Some a \<and> sb_set_blocksize_ok e (SCOUTFS_BRICK_SIZE fmt) \<longrightarrow>
      (\<exists>ret sb' w' evs. scoutfs_fill_super fmt e sb w = (ret, sb', w') \<and>
         events w' = events w @ Kzalloc (Some a) #
           Sb_set_blocksize (SCOUTFS_BRICK_SIZE fmt) True # evs \<and>
         s_blocksize sb' = SCOUTFS_BRICK_SIZE fmt))"
proof (intro conjI allI impI)
  assume "kzalloc_ret e = None"
  from fill_super_enomem [OF this, of fmt sb w]
  show "\<exists>sb' w'. scoutfs_fill_super fmt e sb w = (Inl ENOMEM, sb', w') \<and>
         events w' = events w @ [Kzalloc None] \<and>
         s_blocksize sb' = s_blocksize sb \<and> heap w' = heap w"
    by simp
next
  fix a assume "kzalloc_ret e = Some a \<and> \<not> sb_set_blocksize_ok e (SCOUTFS_BRICK_SIZE fmt)"
  then have k: "kzalloc_ret e = Some a" and b: "\<not> sb_set_blocksize_ok e (SCOUTFS_BRICK_SIZE fmt)"
    by simp_all
  from fill_super_blocksize [OF k b, of sb w]
  show "\<exists>sb' w'. scoutfs_fill_super fmt e sb w = (Inl EINVAL, sb', w') \<and>
         events w' = events w @ [Kzalloc (Some a),
           Sb_set_blocksize (SCOUTFS_BRICK_SIZE fmt) False, Msg Err_blocksize] \<and>
         s_fs_info sb' = Some a \<and> heap w' a = Some (fresh_sb_info fmt)"
    by simp
next
  fix a assume "kzalloc_ret e = Some a \<and> sb_set_blocksize_ok e (SCOUTFS_BRICK_SIZE fmt)"
  then have k: "kzalloc_ret e = Some a" and b: "sb_set_blocksize_ok e (SCOUTFS_BRICK_SIZE fmt)"
    by simp_all
  obtain ret s tr where rs: "read_supers fmt e (fresh_sb_info fmt) = (ret, s, tr)"
    by (cases "read_supers fmt e (fresh_sb_info fmt)") auto
  from fill_super_selected [OF k b rs, of sb w]
  show "\<exists>ret sb' w' evs. scoutfs_fill_super fmt e sb w = (ret, sb', w') \<and>
         events w' = events w @ Kzalloc (Some a) #
           Sb_set_blocksize (SCOUTFS_BRICK_SIZE fmt) True # evs \<and>
         s_blocksize sb' = SCOUTFS_BRICK_SIZE fmt"
    by (auto simp: Let_def split: sum.splits option.splits)
qed

text \<open>
  C6, as amended, on a kernel without memory, on one that refuses the block size and on
  one where both calls succeed.
\<close>

theorem allocation_precedes_blocksize_witness:
  "kzalloc_ret (kzalloc_fails (env_of None None)) = None \<and>
   (\<exists>sb' w'. scoutfs_fill_super small_format (kzalloc_fails (env_of None None))
                new_super_block empty_world = (Inl ENOMEM, sb', w') \<and>
              events w' = [Kzalloc None]) \<and>
   kzalloc_ret (set_blocksize_fails (env_of None None)) = Some 4096 \<and>
   \<not> sb_set_blocksize_ok (set_blocksize_fails (env_of None None)) (SCOUTFS_BRICK_SIZE small_format) \<and>
   (\<exists>sb' w'. scoutfs_fill_super small_format (set_blocksize_fails (env_of None None))
                new_super_block empty_world = (Inl EINVAL, sb', w') \<and>
              events w' = [Kzalloc (Some 4096), Sb_set_blocksize 32 False, Msg Err_blocksize] \<and>
              s_fs_info sb' = Some 4096 \<and> heap w' 4096 = Some (fresh_sb_info small_format)) \<and>
   kzalloc_ret (env_of None (Some brick_seq1)) = Some 4096 \<and>
   sb_set_blocksize_ok (env_of None (Some brick_seq1)) (SCOUTFS_BRICK_SIZE small_format) \<and>
   (\<exists>ret sb' w' evs. scoutfs_fill_super small_format (env_of None (Some brick_seq1))
                new_super_block empty_world = (ret, sb', w') \<and>
              events w' = Kzalloc (Some 4096) # Sb_set_blocksize 32 True # evs \<and>
              s_blocksize sb' = 32)"
proof -
  have a: "kzalloc_ret (kzalloc_fails (env_of None None)) = None"
    by (simp add: kzalloc_fails_def)
  have b: "kzalloc_ret (set_blocksize_fails (env_of None None)) = Some 4096"
    "\<not> sb_set_blocksize_ok (set_blocksize_fails (env_of None None)) (SCOUTFS_BRICK_SIZE small_format)"
    by (simp_all add: set_blocksize_fails_def env_of_fields)
  have c: "kzalloc_ret (env_of None (Some brick_seq1)) = Some 4096"
    "sb_set_blocksize_ok (env_of None (Some brick_seq1)) (SCOUTFS_BRICK_SIZE small_format)"
    by (simp_all add: env_of_fields)
  show ?thesis
    using allocation_precedes_blocksize [of "kzalloc_fails (env_of None None)" small_format new_super_block empty_world]
      allocation_precedes_blocksize [of "set_blocksize_fails (env_of None None)" small_format new_super_block empty_world]
      allocation_precedes_blocksize [of "env_of None (Some brick_seq1)" small_format new_super_block empty_world]
      a b c
    by (auto simp: empty_world_def small_format_fields)
qed

subsection \<open>C7\<close>

text \<open>
  C7. When the context has been set up by \<open>read_supers\<close> and then \<open>scoutfs_iget\<close> fails
  for the root inode or \<open>d_make_root\<close> fails, \<open>scoutfs_fill_super\<close> returns the error
  with the context still allocated, and \<open>scoutfs_mount\<close>, through the error path of
  \<open>mount_bdev\<close> and \<open>scoutfs_kill_sb\<close>, frees the context before it returns that error.
\<close>

theorem failed_root_releases_context:
  assumes "kzalloc_ret e = Some a"
    and "sb_set_blocksize_ok e (SCOUTFS_BRICK_SIZE fmt)"
    and "read_supers fmt e (fresh_sb_info fmt) = (Inr (), c, tr)"
    and "(\<exists>err. scoutfs_iget e (SCOUTFS_ROOT_INO fmt) = Inl err) \<or>
         (\<exists>inode. scoutfs_iget e (SCOUTFS_ROOT_INO fmt) = Inr inode \<and> d_make_root e inode = None)"
  shows "\<exists>err sb1 w1 sb2 w2.
           scoutfs_fill_super fmt e sb w = (Inl err, sb1, w1) \<and>
           s_fs_info sb1 = Some a \<and> heap w1 a = Some c \<and>
           scoutfs_mount fmt e scoutfs_fs_type sb w = (Inl err, sb2, w2) \<and>
           heap w2 a = None \<and>
           events w2 = events w1 @ [Kill_block_super, Kfree (Some a)] \<and>
           (case scoutfs_iget e (SCOUTFS_ROOT_INO fmt) of
              Inl err' \<Rightarrow> err = err' | Inr inode \<Rightarrow> err = ENOMEM)"
proof -
  note fs = fill_super_selected [OF assms(1,2,3), of sb w]
  from assms(4) show ?thesis
  proof
    assume "\<exists>err. scoutfs_iget e (SCOUTFS_ROOT_INO fmt) = Inl err"
    then obtain err where ig: "scoutfs_iget e (SCOUTFS_ROOT_INO fmt) = Inl err" by blast
    with fs show ?thesis
      by (simp add: Let_def scoutfs_mount_def mount_bdev_def scoutfs_fs_type_def
          scoutfs_kill_sb_def kfree_def emit_def)
  next
    assume "\<exists>inode. scoutfs_iget e (SCOUTFS_ROOT_INO fmt) = Inr inode \<and> d_make_root e inode = None"
    then obtain inode where ig: "scoutfs_iget e (SCOUTFS_ROOT_INO fmt) = Inr inode"
      and dm: "d_make_root e inode = None" by blast
    with fs show ?thesis
      by (simp add: Let_def scoutfs_mount_def mount_bdev_def scoutfs_fs_type_def
          scoutfs_kill_sb_def kfree_def emit_def)
  qed
qed

text \<open>
  C7 on a kernel where \<open>scoutfs_iget\<close> fails and on one where \<open>d_make_root\<close> fails, both
  with a valid record of sequence 9 on the device.
\<close>

theorem failed_root_releases_context_witness:
  "kzalloc_ret (iget_fails (env_of (Some brick_seq3) (Some brick_seq9))) = Some 4096 \<and>
   sb_set_blocksize_ok (iget_fails (env_of (Some brick_seq3) (Some brick_seq9)))
     (SCOUTFS_BRICK_SIZE small_format) \<and>
   fst (read_supers small_format (iget_fails (env_of (Some brick_seq3) (Some brick_seq9)))
     (fresh_sb_info small_format)) = Inr () \<and>
   scoutfs_iget (iget_fails (env_of (Some brick_seq3) (Some brick_seq9)))
     (SCOUTFS_ROOT_INO small_format) = Inl (Errno 5) \<and>
   fst (scoutfs_fill_super small_format (iget_fails (env_of (Some brick_seq3) (Some brick_seq9)))
     new_super_block empty_world) = Inl (Errno 5) \<and>
   heap (snd (snd (scoutfs_fill_super small_format
     (iget_fails (env_of (Some brick_seq3) (Some brick_seq9)))
     new_super_block empty_world))) 4096 \<noteq> None \<and>
   fst (scoutfs_mount small_format (iget_fails (env_of (Some brick_seq3) (Some brick_seq9)))
     scoutfs_fs_type new_super_block empty_world) = Inl (Errno 5) \<and>
   heap (snd (snd (scoutfs_mount small_format
     (iget_fails (env_of (Some brick_seq3) (Some brick_seq9)))
     scoutfs_fs_type new_super_block empty_world))) 4096 = None \<and>
   scoutfs_iget (d_make_root_fails (env_of (Some brick_seq3) (Some brick_seq9)))
     (SCOUTFS_ROOT_INO small_format) = Inr 500 \<and>
   d_make_root (d_make_root_fails (env_of (Some brick_seq3) (Some brick_seq9))) 500 = None \<and>
   fst (scoutfs_mount small_format (d_make_root_fails (env_of (Some brick_seq3) (Some brick_seq9)))
     scoutfs_fs_type new_super_block empty_world) = Inl ENOMEM \<and>
   heap (snd (snd (scoutfs_mount small_format
     (d_make_root_fails (env_of (Some brick_seq3) (Some brick_seq9)))
     scoutfs_fs_type new_super_block empty_world))) 4096 = None"
proof -
  let ?e1 = "iget_fails (env_of (Some brick_seq3) (Some brick_seq9))"
  let ?e2 = "d_make_root_fails (env_of (Some brick_seq3) (Some brick_seq9))"
  have k: "kzalloc_ret ?e1 = Some 4096" "kzalloc_ret ?e2 = Some 4096"
    by (simp_all add: iget_fails_def d_make_root_fails_def env_of_fields)
  have b: "sb_set_blocksize_ok ?e1 (SCOUTFS_BRICK_SIZE small_format)"
    "sb_set_blocksize_ok ?e2 (SCOUTFS_BRICK_SIZE small_format)"
    by (simp_all add: iget_fails_def d_make_root_fails_def env_of_fields)
  note r1 = trans [OF read_supers_other_calls(1) run_scenario_B]
  note r2 = trans [OF read_supers_other_calls(2) run_scenario_B]
  have i1: "scoutfs_iget ?e1 (SCOUTFS_ROOT_INO small_format) = Inl (Errno 5)"
    by (simp add: iget_fails_def)
  have i2: "scoutfs_iget ?e2 (SCOUTFS_ROOT_INO small_format) = Inr 500"
    "d_make_root ?e2 500 = None"
    by (simp_all add: d_make_root_fails_def env_of_fields)
  have h1: "(\<exists>err. scoutfs_iget ?e1 (SCOUTFS_ROOT_INO small_format) = Inl err) \<or>
         (\<exists>inode. scoutfs_iget ?e1 (SCOUTFS_ROOT_INO small_format) = Inr inode \<and>
            d_make_root ?e1 inode = None)"
    using i1 by simp
  have h2: "(\<exists>err. scoutfs_iget ?e2 (SCOUTFS_ROOT_INO small_format) = Inl err) \<or>
         (\<exists>inode. scoutfs_iget ?e2 (SCOUTFS_ROOT_INO small_format) = Inr inode \<and>
            d_make_root ?e2 inode = None)"
    using i2 by simp
  show ?thesis
    using failed_root_releases_context [OF k(1) b(1) r1 h1, of new_super_block empty_world]
      failed_root_releases_context [OF k(2) b(2) r2 h2, of new_super_block empty_world]
      k b r1 i1 i2
    by auto
qed

subsection \<open>C8\<close>

text \<open>
  C8. After any two successful runs of \<open>scoutfs_fill_super\<close>, whatever the devices held
  and whichever records were selected, both contexts have \<open>next_ino\<close> at
  \<open>SCOUTFS_ROOT_INO + 1\<close> and \<open>next_blkno\<close> at 2.
\<close>

theorem counters_seeded_from_constants:
  assumes "scoutfs_fill_super fmt e1 sb1 w1 = (Inr (), sb1', w1')"
    and "scoutfs_fill_super fmt e2 sb2 w2 = (Inr (), sb2', w2')"
  shows "\<exists>a1 c1 a2 c2. s_fs_info sb1' = Some a1 \<and> heap w1' a1 = Some c1 \<and>
           s_fs_info sb2' = Some a2 \<and> heap w2' a2 = Some c2 \<and>
           next_ino c1 = SCOUTFS_ROOT_INO fmt + 1 \<and> next_blkno c1 = 2 \<and>
           next_ino c2 = next_ino c1 \<and> next_blkno c2 = next_blkno c1"
proof -
  from fill_super_success [OF assms(1)] obtain a1 c1 tr1 where
    m1: "s_fs_info sb1' = Some a1" "heap w1' a1 = Some c1"
      "read_supers fmt e1 (fresh_sb_info fmt) = (Inr (), c1, tr1)" by blast
  from fill_super_success [OF assms(2)] obtain a2 c2 tr2 where
    m2: "s_fs_info sb2' = Some a2" "heap w2' a2 = Some c2"
      "read_supers fmt e2 (fresh_sb_info fmt) = (Inr (), c2, tr2)" by blast
  from read_supers_counters [OF m1(3)] read_supers_counters [OF m2(3)] m1(1,2) m2(1,2)
  show ?thesis by simp
qed

text \<open>C8 on two mounts that select records with different payloads.\<close>

theorem counters_seeded_from_constants_witness:
  "fst (scoutfs_fill_super small_format (env_of (Some brick_seq3) (Some brick_seq9))
     new_super_block empty_world) = Inr () \<and>
   fst (scoutfs_fill_super small_format (env_of (Some brick_seq5) (Some brick_seq7_bad_crc))
     new_super_block empty_world) = Inr () \<and>
   map_option super (heap (snd (snd (scoutfs_fill_super small_format
     (env_of (Some brick_seq3) (Some brick_seq9)) new_super_block empty_world))) 4096) =
     Some (take 28 brick_seq9) \<and>
   map_option super (heap (snd (snd (scoutfs_fill_super small_format
     (env_of (Some brick_seq5) (Some brick_seq7_bad_crc)) new_super_block empty_world))) 4096) =
     Some (take 28 brick_seq5) \<and>
   (\<exists>a1 c1 a2 c2.
      s_fs_info (fst (snd (scoutfs_fill_super small_format
        (env_of (Some brick_seq3) (Some brick_seq9)) new_super_block empty_world))) = Some a1 \<and>
      heap (snd (snd (scoutfs_fill_super small_format
        (env_of (Some brick_seq3) (Some brick_seq9)) new_super_block empty_world))) a1 = Some c1 \<and>
      s_fs_info (fst (snd (scoutfs_fill_super small_format
        (env_of (Some brick_seq5) (Some brick_seq7_bad_crc)) new_super_block empty_world))) = Some a2 \<and>
      heap (snd (snd (scoutfs_fill_super small_format
        (env_of (Some brick_seq5) (Some brick_seq7_bad_crc)) new_super_block empty_world))) a2 = Some c2 \<and>
      next_ino c1 = 2 \<and> next_blkno c1 = 2 \<and> next_ino c2 = 2 \<and> next_blkno c2 = 2)"
proof -
  let ?F1 = "scoutfs_fill_super small_format (env_of (Some brick_seq3) (Some brick_seq9))
     new_super_block empty_world"
  let ?F2 = "scoutfs_fill_super small_format (env_of (Some brick_seq5) (Some brick_seq7_bad_crc))
     new_super_block empty_world"
  have p1: "?F1 = (Inr (), fst (snd ?F1), snd (snd ?F1))"
    using mount_scenario_B(1) by (simp add: prod_eq_iff)
  have p2: "?F2 = (Inr (), fst (snd ?F2), snd (snd ?F2))"
    using mount_scenario_A(1) by (simp add: prod_eq_iff)
  show ?thesis
    using counters_seeded_from_constants [OF p1 p2] mount_scenario_A mount_scenario_B
    by (simp add: small_format_fields)
qed

subsection \<open>C9\<close>

text \<open>
  C9. Whenever \<open>read_supers\<close> succeeds, \<open>sbi->super\<close> holds the first
  \<open>sizeof(struct scoutfs_super)\<close> bytes of the brick that was read from the slot the scan
  ends with in \<open>found\<close>, byte for byte, and that slot is the one reported.
\<close>

theorem stored_super_is_copy_of_winner:
  assumes "read_supers fmt e s = (Inr (), s', tr)"
  shows "\<exists>i d. i < 2 \<and> found (read_supers_scan fmt e s) = int i \<and>
           sb_bread e (SCOUTFS_SUPER_BRICK fmt + i) = Some d \<and>
           super s' = take (sizeof_scoutfs_super fmt) d \<and>
           Msg (Info_using (int i) (super_hdr_seq fmt (super s'))) \<in> set tr"
proof -
  have nn: "0 \<le> found (read_supers_scan fmt e s)"
  proof (rule ccontr)
    assume "\<not> 0 \<le> found (read_supers_scan fmt e s)"
    then have "found (read_supers_scan fmt e s) < 0" by simp
    from read_supers_none [OF this] assms show False by simp
  qed
  with scan_found_cases [of fmt e s] obtain i d where
    id: "i < 2" "found (read_supers_scan fmt e s) = int i" "slot_record fmt e i = Some d"
      "sbi (read_supers_scan fmt e s) = s\<lparr>super := take (sizeof_scoutfs_super fmt) d\<rparr>"
    by auto
  from read_supers_found [OF nn] assms id(2,4)
  have "super s' = take (sizeof_scoutfs_super fmt) d \<and>
        Msg (Info_using (int i) (super_hdr_seq fmt (super s'))) \<in> set tr"
    by auto
  with id(1,2) slot_record_sb_bread [OF id(3)] show ?thesis by blast
qed

text \<open>C9 on the device with sequence numbers 3 and 9.\<close>

theorem stored_super_is_copy_of_winner_witness:
  "read_supers small_format (env_of (Some brick_seq3) (Some brick_seq9))
     (fresh_sb_info small_format) =
     (Inr (),
      \<lparr>super = take 28 brick_seq9, next_ino = 2, next_blkno = 2,
       bloom_hash_keys = [[7, 1, 2, 3], [8, 1, 2, 3]],
       item_lock = True, item_root = None, dirty_item_root = None\<rparr>,
      [Sb_bread 16 True, Brelse 16, Sb_bread 17 True, Brelse 17, Msg (Info_using 1 9),
       Get_random_bytes 0, Get_random_bytes 1]) \<and>
   (\<exists>i d. i < 2 \<and>
      found (read_supers_scan small_format (env_of (Some brick_seq3) (Some brick_seq9))
        (fresh_sb_info small_format)) = int i \<and>
      sb_bread (env_of (Some brick_seq3) (Some brick_seq9)) (16 + i) = Some d \<and>
      take 28 brick_seq9 = take 28 d)"
  using stored_super_is_copy_of_winner [OF run_scenario_B] run_scenario_B
  by (auto simp: small_format_fields)

subsection \<open>C10\<close>

text \<open>
  C10. After a successful \<open>scoutfs_fill_super\<close> the root was resolved with
  \<open>SCOUTFS_ROOT_INO\<close>, and \<open>next_ino\<close> of the context is \<open>SCOUTFS_ROOT_INO + 1\<close>, strictly
  above the root inode number; every one of the next \<open>n\<close> inode numbers handed out from
  the counter is strictly above it too, as long as the 64-bit counter does not wrap.
\<close>

theorem next_ino_above_root:
  assumes "scoutfs_fill_super fmt e sb w = (Inr (), sb', w')"
    and "unat (SCOUTFS_ROOT_INO fmt) + 1 + n < 2 ^ 64"
  shows "\<exists>a c. s_fs_info sb' = Some a \<and> heap w' a = Some c \<and>
           Scoutfs_iget (SCOUTFS_ROOT_INO fmt) True \<in> set (events w') \<and>
           next_ino c = SCOUTFS_ROOT_INO fmt + 1 \<and>
           SCOUTFS_ROOT_INO fmt < next_ino c \<and>
           (\<forall>ino \<in> set (fst (alloc_inos n c)). SCOUTFS_ROOT_INO fmt < ino)"
proof -
  from fill_super_success [OF assms(1)] obtain a c tr where
    m: "s_fs_info sb' = Some a" "heap w' a = Some c"
      "read_supers fmt e (fresh_sb_info fmt) = (Inr (), c, tr)"
      "Scoutfs_iget (SCOUTFS_ROOT_INO fmt) True \<in> set (events w')" by blast
  note ni = read_supers_counters(1) [OF m(3)]
  have "SCOUTFS_ROOT_INO fmt < SCOUTFS_ROOT_INO fmt + 1 + of_nat 0"
    using assms(2) by (intro above_root) simp
  then have gt: "SCOUTFS_ROOT_INO fmt < next_ino c" using ni by simp
  have "\<forall>ino \<in> set (fst (alloc_inos n c)). SCOUTFS_ROOT_INO fmt < ino"
  proof
    fix ino assume "ino \<in> set (fst (alloc_inos n c))"
    from alloc_inos_values [OF this] obtain k where k: "k < n" "ino = next_ino c + of_nat k"
      by blast
    have "SCOUTFS_ROOT_INO fmt < SCOUTFS_ROOT_INO fmt + 1 + of_nat k"
      using assms(2) k(1) by (intro above_root) simp
    then show "SCOUTFS_ROOT_INO fmt < ino" using k(2) ni by simp
  qed
  with m gt ni show ?thesis by blast
qed

text \<open>C10 after a mount with root inode number 1, for the next three inode numbers.\<close>

theorem next_ino_above_root_witness:
  "fst (scoutfs_fill_super small_format (env_of (Some brick_seq3) (Some brick_seq9))
     new_super_block empty_world) = Inr () \<and>
   unat (SCOUTFS_ROOT_INO small_format) + 1 + 3 < 2 ^ 64 \<and>
   (\<exists>a c. s_fs_info (fst (snd (scoutfs_fill_super small_format
        (env_of (Some brick_seq3) (Some brick_seq9)) new_super_block empty_world))) = Some a \<and>
      heap (snd (snd (scoutfs_fill_super small_format
        (env_of (Some brick_seq3) (Some brick_seq9)) new_super_block empty_world))) a = Some c \<and>
      SCOUTFS_ROOT_INO small_format < next_ino c \<and>
      next_ino c = 2 \<and> fst (alloc_inos 3 c) = [2, 3, 4])"
proof -
  let ?F1 = "scoutfs_fill_super small_format (env_of (Some brick_seq3) (Some brick_seq9))
     new_super_block empty_world"
  have p1: "?F1 = (Inr (), fst (snd ?F1), snd (snd ?F1))"
    using mount_scenario_B(1) by (simp add: prod_eq_iff)
  have n: "unat (SCOUTFS_ROOT_INO small_format) + 1 + 3 < 2 ^ 64"
    by (simp add: small_format_fields)
  have al: "\<And>c. next_ino c = 2 \<Longrightarrow> fst (alloc_inos 3 c) = [2, 3, 4]"
    by (simp add: numeral_3_eq_3 alloc_ino_def)
  show ?thesis
    using next_ino_above_root [OF p1 n] mount_scenario_B n al
    by (auto simp: small_format_fields)
qed

end
